theory Spec2Isabelle
  imports Complex_Main
begin

section \<open>Conventions of the embedding\<close>

text \<open>
  The development embeds the scoring lens (\<^verbatim>\<open>src/core/rose_glass_lens.py\<close>), the
  qualifier (\<^verbatim>\<open>src/pipeline/qualifier.py\<close>), the trial manager
  (\<^verbatim>\<open>src/trial/trial_manager.py\<close>) and the nutrient extraction of the graveyard
  (\<^verbatim>\<open>src/graveyard/graveyard_manager.py\<close>).

  \<^item> Python \<^verbatim>\<open>float\<close> values are modelled as \<^typ>\<open>real\<close>: arithmetic is exact, rounding of
    IEEE doubles is not part of the model.
  \<^item> Python \<^verbatim>\<open>int\<close> values are \<^typ>\<open>int\<close>.
  \<^item> Python \<^verbatim>\<open>str\<close> values are \<^typ>\<open>string\<close>; \<^verbatim>\<open>lower()\<close> and \<^verbatim>\<open>strip()\<close> are modelled on
    ASCII text.
  \<^item> An \<^verbatim>\<open>Optional[T]\<close> field is a \<^typ>\<open>'a option\<close>.
  \<^item> Timestamps (\<^verbatim>\<open>datetime.now()\<close>), logging and the JSON files written for
    persistence are left out; the one file that is read back, \<^verbatim>\<open>current_standard.json\<close>,
    is a component of the manager's state.
\<close>

section \<open>Strings\<close>

text \<open>\<^verbatim>\<open>str.lower()\<close> on ASCII: the letters A to Z are moved to a to z.\<close>

definition lower_char :: "char \<Rightarrow> char" where
  "lower_char c =
     (let n = (of_char c :: nat) in if 65 \<le> n \<and> n \<le> 90 then char_of (n + 32) else c)"

definition lower :: "string \<Rightarrow> string" where
  "lower s = map lower_char s"

fun is_prefix :: "string \<Rightarrow> string \<Rightarrow> bool" where
  "is_prefix [] s = True"
| "is_prefix (c # t) [] = False"
| "is_prefix (c # t) (d # s) = (c = d \<and> is_prefix t s)"

text \<open>The substring test \<^verbatim>\<open>t in s\<close>.\<close>

fun str_in :: "string \<Rightarrow> string \<Rightarrow> bool" where
  "str_in t [] = (t = [])"
| "str_in t (c # s) = (is_prefix t (c # s) \<or> str_in t s)"

text \<open>\<^verbatim>\<open>sep.join(xs)\<close>.\<close>

fun join :: "string \<Rightarrow> string list \<Rightarrow> string" where
  "join sep [] = []"
| "join sep [x] = x"
| "join sep (x # y # ys) = x @ sep @ join sep (y # ys)"

text \<open>The ASCII characters that \<^verbatim>\<open>str.strip()\<close> removes.\<close>

definition is_space :: "char \<Rightarrow> bool" where
  "is_space c = (let n = (of_char c :: nat) in (9 \<le> n \<and> n \<le> 13) \<or> (28 \<le> n \<and> n \<le> 32))"

definition strip :: "string \<Rightarrow> string" where
  "strip s = rev (dropWhile is_space (rev (dropWhile is_space s)))"

text \<open>Truth value of an \<^verbatim>\<open>Optional[str]\<close>: neither \<^verbatim>\<open>None\<close> nor empty.\<close>

definition truthy :: "string option \<Rightarrow> bool" where
  "truthy s = (case s of None \<Rightarrow> False | Some t \<Rightarrow> t \<noteq> [])"

text \<open>\<^verbatim>\<open>s or ''\<close> for an \<^verbatim>\<open>Optional[str]\<close>.\<close>

definition or_empty :: "string option \<Rightarrow> string" where
  "or_empty s = (case s of None \<Rightarrow> [] | Some t \<Rightarrow> t)"

section \<open>The lens: data\<close>

record LeadData =
  lead_id :: string
  company_name :: string
  contact_name :: "string option"
  contact_title :: "string option"
  contact_email :: "string option"
  industry :: "string option"
  company_size :: "string option"
  revenue_range :: "string option"
  tech_stack :: "string list"
  source :: string
  initial_interest :: "string option"
  pain_points :: "string list"
  is_decision_maker :: "bool option"
  budget_mentioned :: "bool option"
  timeline_mentioned :: "string option"
  current_solution :: "string option"
  competitor_mentioned :: "string list"
  use_case :: "string option"
  website_visits :: int
  content_downloads :: "string list"
  email_opens :: int
  meeting_requests :: int
  lead_notes :: string
  email_content :: string
  call_transcript :: string

record LeadCoherence =
  psi_intent :: real
  rho_authority :: real
  q_urgency :: real
  f_fit :: real
  coherence_score :: real
  qualification_tier :: string
  lens_used :: string
  confidence :: real
  positive_signals :: "string list"
  warning_signals :: "string list"
  disqualifiers :: "string list"
  next_actions :: "string list"

text \<open>A weight dictionary with its four keys.\<close>

record Weights =
  w_psi_intent :: real
  w_rho_authority :: real
  w_q_urgency :: real
  w_f_fit :: real

record Calibration =
  weights :: Weights
  authority_threshold :: real

text \<open>
  The lens object. \<open>calibration\<close> is \<open>None\<close> where the source holds the empty dictionary
  (an unknown lens name).
\<close>

record Lens =
  lens_name :: string
  calibration :: "Calibration option"
  lens_weights :: Weights

definition KM :: real where "KM = 0.2"
definition KI :: real where "KI = 0.8"

definition DEFAULT_WEIGHTS :: Weights where
  "DEFAULT_WEIGHTS =
     \<lparr>w_psi_intent = 0.25, w_rho_authority = 0.30, w_q_urgency = 0.25, w_f_fit = 0.20\<rparr>"

definition LENS_CALIBRATIONS :: "string \<Rightarrow> Calibration option" where
  "LENS_CALIBRATIONS name =
     (if name = ''enterprise_saas'' then
        Some \<lparr>weights = \<lparr>w_psi_intent = 0.20, w_rho_authority = 0.35, w_q_urgency = 0.20,
                          w_f_fit = 0.25\<rparr>, authority_threshold = 0.6\<rparr>
      else if name = ''smb_tech'' then
        Some \<lparr>weights = \<lparr>w_psi_intent = 0.30, w_rho_authority = 0.20, w_q_urgency = 0.30,
                          w_f_fit = 0.20\<rparr>, authority_threshold = 0.4\<rparr>
      else if name = ''federal_gov'' then
        Some \<lparr>weights = \<lparr>w_psi_intent = 0.25, w_rho_authority = 0.25, w_q_urgency = 0.15,
                          w_f_fit = 0.35\<rparr>, authority_threshold = 0.5\<rparr>
      else if name = ''healthcare'' then
        Some \<lparr>weights = \<lparr>w_psi_intent = 0.20, w_rho_authority = 0.30, w_q_urgency = 0.20,
                          w_f_fit = 0.30\<rparr>, authority_threshold = 0.55\<rparr>
      else None)"

text \<open>\<^verbatim>\<open>RoseGlassCRMLens.__init__\<close>.\<close>

definition new_lens :: "string \<Rightarrow> Lens" where
  "new_lens name =
     (let cal = LENS_CALIBRATIONS name
      in \<lparr>lens_name = name, calibration = cal,
          lens_weights = (case cal of None \<Rightarrow> DEFAULT_WEIGHTS | Some c \<Rightarrow> weights c)\<rparr>)"

section \<open>The lens: operations\<close>

definition get_text_for_analysis :: "LeadData \<Rightarrow> string" where
  "get_text_for_analysis lead =
     join '' ''
       (filter (\<lambda>p. p \<noteq> [])
          [lead_notes lead, email_content lead, call_transcript lead,
           or_empty (initial_interest lead), join '' '' (pain_points lead),
           or_empty (use_case lead)])"

definition biological_optimization :: "real \<Rightarrow> real" where
  "biological_optimization q_raw =
     (if q_raw \<le> 0 then 0 else q_raw / (KM + q_raw + (q_raw ^ 2 / KI)))"

definition source_weights :: "string \<Rightarrow> real option" where
  "source_weights s =
     (if s = ''inbound'' then Some 0.3 else if s = ''referral'' then Some 0.25
      else if s = ''event'' then Some 0.2 else if s = ''content'' then Some 0.15
      else if s = ''outbound'' then Some 0.1 else if s = ''unknown'' then Some 0.05
      else None)"

text \<open>\<^verbatim>\<open>d.get(k, default)\<close>.\<close>

definition get_or :: "'a option \<Rightarrow> 'a \<Rightarrow> 'a" where
  "get_or v d = (case v of None \<Rightarrow> d | Some x \<Rightarrow> x)"

definition extract_psi_intent :: "LeadData \<Rightarrow> real" where
  "extract_psi_intent lead =
     (let score = 0;
          score = score + get_or (source_weights (source lead)) 0.05;
          score = (if pain_points lead \<noteq> []
                   then score + min (real (length (pain_points lead)) * 0.1) 0.3 else score);
          score = (if truthy (use_case lead) then score + 0.2 else score);
          score = (if meeting_requests lead > 0 then score + 0.15 else score);
          score = (if content_downloads lead \<noteq> []
                   then score + min (real (length (content_downloads lead)) * 0.05) 0.15
                   else score)
      in min score 1.0)"

definition authority_titles :: "string list" where
  "authority_titles =
     [''ceo'', ''cto'', ''cfo'', ''coo'', ''vp'', ''director'', ''head of'', ''chief'']"

definition size_weights :: "string \<Rightarrow> real option" where
  "size_weights s =
     (if s = ''enterprise'' then Some 0.15 else if s = ''mid-market'' then Some 0.2
      else if s = ''smb'' then Some 0.15 else if s = ''startup'' then Some 0.1 else None)"

definition extract_rho_authority :: "LeadData \<Rightarrow> real" where
  "extract_rho_authority lead =
     (let score = 0;
          score = (if is_decision_maker lead = Some True then score + 0.35
                   else if is_decision_maker lead = None then score + 0.15 else score);
          score = (if truthy (contact_title lead)
                   then (let title_lower = lower (or_empty (contact_title lead))
                         in if list_ex (\<lambda>t. str_in t title_lower) authority_titles
                            then score + 0.25 else score)
                   else score);
          score = (if budget_mentioned lead = Some True then score + 0.2 else score);
          score = score + get_or (size_weights (or_empty (company_size lead))) 0.1
      in min score 1.0)"

definition timeline_weights :: "string \<Rightarrow> real option" where
  "timeline_weights s =
     (if s = ''immediate'' then Some 0.4 else if s = ''this_quarter'' then Some 0.3
      else if s = ''next_quarter'' then Some 0.2 else if s = ''this_year'' then Some 0.1
      else None)"

definition urgency_markers :: "string list" where
  "urgency_markers =
     [''urgent'', ''asap'', ''immediately'', ''critical'', ''deadline'',
      ''struggling'', ''failing'', ''breaking'', ''desperate'', ''need now'']"

definition extract_q_urgency :: "LeadData \<Rightarrow> real" where
  "extract_q_urgency lead =
     (let score = 0;
          score = (if truthy (timeline_mentioned lead)
                   then score + get_or (timeline_weights (or_empty (timeline_mentioned lead))) 0.1
                   else score);
          text = lower (get_text_for_analysis lead);
          urgency_count = length (filter (\<lambda>m. str_in m text) urgency_markers);
          score = score + min (real urgency_count * 0.1) 0.3;
          score = (if meeting_requests lead > 1 then score + 0.15 else score);
          score = (if website_visits lead > 5 then score + 0.1 else score)
      in min score 1.0)"

definition target_industries :: "string list" where
  "target_industries = [''technology'', ''saas'', ''software'', ''fintech'', ''healthcare tech'']"

definition extract_f_fit :: "LeadData \<Rightarrow> real" where
  "extract_f_fit lead =
     (let score = 0;
          score = (if truthy (industry lead) \<and>
                      list_ex (\<lambda>t. str_in t (lower (or_empty (industry lead)))) target_industries
                   then score + 0.25 else score);
          score = (if tech_stack lead \<noteq> []
                   then score + min (real (length (tech_stack lead)) * 0.05) 0.2 else score);
          score = (if company_size lead = Some ''mid-market'' \<or> company_size lead = Some ''enterprise''
                   then score + 0.2
                   else if company_size lead = Some ''smb'' then score + 0.15 else score);
          score = (if competitor_mentioned lead = [] then score + 0.15
                   else if competitor_mentioned lead \<noteq> [] then score + 0.1 else score);
          score = (if source lead = ''referral'' then score + 0.15 else score)
      in min score 1.0)"

definition calculate_coherence :: "Lens \<Rightarrow> real \<Rightarrow> real \<Rightarrow> real \<Rightarrow> real \<Rightarrow> real" where
  "calculate_coherence self psi rho q f =
     (let coupling_strength = 0.15;
          coupling = coupling_strength * rho * psi;
          coherence = (w_psi_intent (lens_weights self) * psi +
                       w_rho_authority (lens_weights self) * rho +
                       w_q_urgency (lens_weights self) * q +
                       w_f_fit (lens_weights self) * f +
                       coupling) * 4
      in min coherence 4.0)"

definition determine_tier :: "Lens \<Rightarrow> real \<Rightarrow> real \<Rightarrow> real \<Rightarrow> real \<Rightarrow> real \<Rightarrow> string" where
  "determine_tier self coherence psi rho q f =
     (let threshold = (case calibration self of None \<Rightarrow> 0.5 | Some c \<Rightarrow> authority_threshold c)
      in if f < 0.2 then ''disqualified''
         else if rho < 0.15 then ''disqualified''
         else if coherence \<ge> 2.5 \<and> rho \<ge> threshold \<and> q \<ge> 0.3 then ''hot''
         else if coherence \<ge> 1.5 then ''warm''
         else ''cold'')"

text \<open>\<^verbatim>\<open>xs.append(v)\<close> under a condition.\<close>

definition append_if :: "bool \<Rightarrow> 'a \<Rightarrow> 'a list \<Rightarrow> 'a list" where
  "append_if b v xs = (if b then xs @ [v] else xs)"

definition detect_signals ::
  "LeadData \<Rightarrow> real \<Rightarrow> real \<Rightarrow> real \<Rightarrow> real \<Rightarrow> string list \<times> string list \<times> string list" where
  "detect_signals lead psi rho q f =
     (let positive = [];
          positive = append_if (psi \<ge> 0.6) ''Strong intent signals'' positive;
          positive = append_if (rho \<ge> 0.6) ''Decision-making authority'' positive;
          positive = append_if (q \<ge> 0.5) ''Urgency expressed'' positive;
          positive = append_if (f \<ge> 0.6) ''Strong ICP fit'' positive;
          positive = append_if (source lead = ''referral'')
                       ''Referral lead (ecosystem validated)'' positive;
          positive = append_if (budget_mentioned lead = Some True) ''Budget discussed'' positive;
          warning = [];
          warning = append_if (rho < 0.4 \<and> psi > 0.5)
                      ''Intent without authority - may need champion'' warning;
          warning = append_if (q > 0.7 \<and> rho < 0.4)
                      ''High urgency + low authority - may be researcher'' warning;
          warning = append_if (competitor_mentioned lead \<noteq> [])
                      (''Currently using: '' @ join '', '' (competitor_mentioned lead)) warning;
          warning = append_if (psi < 0.3) ''Unclear intent - needs discovery'' warning;
          disq = [];
          disq = append_if (f < 0.2) ''Poor ICP fit'' disq;
          disq = append_if (rho < 0.15 \<and> company_size lead = Some ''enterprise'')
                   ''Too junior for enterprise deal'' disq
      in (positive, warning, disq))"

definition recommend_actions ::
  "string \<Rightarrow> LeadData \<Rightarrow> real \<Rightarrow> real \<Rightarrow> real \<Rightarrow> real \<Rightarrow> string list" where
  "recommend_actions tier lead psi rho q f =
     (if tier = ''disqualified'' then [''Archive - does not meet qualification criteria'']
      else if tier = ''hot'' then
        (let actions = [''Schedule demo/meeting ASAP''];
             actions = append_if (budget_mentioned lead \<noteq> Some True)
                         ''Confirm budget in first call'' actions;
             actions = append_if (q \<ge> 0.6) ''Offer accelerated timeline'' actions
         in actions)
      else if tier = ''warm'' then
        (let actions = [];
             actions = append_if (psi < 0.5) ''Discovery call to understand needs'' actions;
             actions = append_if (rho < 0.5) ''Identify decision-maker / champion'' actions;
             actions = append_if (q < 0.3) ''Create urgency - share ROI data'' actions
         in actions @ [''Add to nurture sequence''])
      else if tier = ''cold'' then
        (let actions = [''Add to long-term nurture''];
             actions = append_if (psi < 0.3) ''Send educational content'' actions
         in actions @ [''Re-evaluate in 30 days''])
      else [])"

definition points :: "bool \<Rightarrow> nat \<Rightarrow> nat" where
  "points b n = (if b then n else 0)"

definition calculate_confidence :: "LeadData \<Rightarrow> real" where
  "calculate_confidence lead =
     (let max_points = 10;
          data_points =
            points (truthy (contact_name lead)) 1 +
            points (truthy (contact_title lead)) 1 +
            points (truthy (industry lead)) 1 +
            points (truthy (company_size lead)) 1 +
            points (pain_points lead \<noteq> []) 1 +
            points (is_decision_maker lead \<noteq> None) 1 +
            points (budget_mentioned lead \<noteq> None) 1 +
            points (truthy (timeline_mentioned lead)) 1 +
            points (strip (get_text_for_analysis lead) \<noteq> []) 2
      in real data_points / max_points)"

definition perceive :: "Lens \<Rightarrow> LeadData \<Rightarrow> LeadCoherence" where
  "perceive self lead =
     (let psi = extract_psi_intent lead;
          rho = extract_rho_authority lead;
          q_raw = extract_q_urgency lead;
          f = extract_f_fit lead;
          q = biological_optimization q_raw;
          coherence = calculate_coherence self psi rho q f;
          tier = determine_tier self coherence psi rho q f;
          (positive, warning, disq) = detect_signals lead psi rho q f;
          actions = recommend_actions tier lead psi rho q f;
          conf = calculate_confidence lead
      in \<lparr>psi_intent = psi, rho_authority = rho, q_urgency = q, f_fit = f,
          coherence_score = coherence, qualification_tier = tier,
          lens_used = lens_name self, confidence = conf,
          positive_signals = positive, warning_signals = warning,
          disqualifiers = disq, next_actions = actions\<rparr>)"

text \<open>\<^verbatim>\<open>LeadData(lead_id=..., company_name=...)\<close> with every other field at its default.\<close>

definition new_lead :: "string \<Rightarrow> string \<Rightarrow> LeadData" where
  "new_lead lid cname =
     \<lparr>lead_id = lid, company_name = cname, contact_name = None, contact_title = None,
      contact_email = None, industry = None, company_size = None, revenue_range = None,
      tech_stack = [], source = ''unknown'', initial_interest = None, pain_points = [],
      is_decision_maker = None, budget_mentioned = None, timeline_mentioned = None,
      current_solution = None, competitor_mentioned = [], use_case = None,
      website_visits = 0, content_downloads = [], email_opens = 0, meeting_requests = 0,
      lead_notes = [], email_content = [], call_transcript = []\<rparr>"

text \<open>
  The referral scenario: a lead whose populated signals are the referral source, three
  pain points, the decision-maker and budget flags, the timeline \<^verbatim>\<open>this_quarter\<close> and two
  meeting requests.
\<close>

definition scenario_lead :: "string \<Rightarrow> string \<Rightarrow> string \<Rightarrow> string \<Rightarrow> string \<Rightarrow> LeadData" where
  "scenario_lead lid cname p1 p2 p3 =
     (new_lead lid cname)\<lparr>source := ''referral'', pain_points := [p1, p2, p3],
        is_decision_maker := Some True, budget_mentioned := Some True,
        timeline_mentioned := Some ''this_quarter'', meeting_requests := 2\<rparr>"

definition referral_lead :: LeadData where
  "referral_lead = scenario_lead ''hot001'' ''Acme Enterprise''
      ''security compliance'' ''access management'' ''audit requirements''"

section \<open>The qualifier\<close>

text \<open>Python exceptions that the modelled code can raise.\<close>

datatype error = ZeroDivisionError | KeyError | TypeError

text \<open>
  \<^verbatim>\<open>QualificationResult\<close>. The fields that share a name with a field of the lead or of the
  reading, and \<^verbatim>\<open>qualified\<close>, carry the prefix \<open>res_\<close>; \<^verbatim>\<open>qualified_at\<close> is a timestamp and is left out.
\<close>

record QualificationResult =
  res_lead_id :: string
  res_company_name :: string
  coherence :: LeadCoherence
  res_qualification_tier :: string
  res_qualified :: bool
  next_stage :: string
  priority_score :: real
  qualified_by :: string
  res_lens_used :: string
  trial_branch :: "string option"

text \<open>The \<^verbatim>\<open>stats\<close> dictionary of the qualifier, with its five keys.\<close>

record Stats =
  total_qualified :: int
  hot :: int
  warm :: int
  cold :: int
  disqualified :: int

text \<open>
  The qualifier object. The log holds the results themselves where the source holds their
  \<^verbatim>\<open>to_dict()\<close> serialisation.
\<close>

record LeadQualifier =
  lens :: Lens
  q_lens_name :: string
  q_trial_branch :: string
  qualification_log :: "QualificationResult list"
  stats :: Stats

text \<open>\<^verbatim>\<open>LeadQualifier.__init__\<close>; \<^verbatim>\<open>trial_branch or 'classic'\<close>.\<close>

definition new_qualifier :: "string \<Rightarrow> string option \<Rightarrow> LeadQualifier" where
  "new_qualifier name branch =
     \<lparr>lens = new_lens name, q_lens_name = name,
      q_trial_branch = (if truthy branch then or_empty branch else ''classic''),
      qualification_log = [],
      stats = \<lparr>total_qualified = 0, hot = 0, warm = 0, cold = 0, disqualified = 0\<rparr>\<rparr>"

definition determine_routing :: "LeadCoherence \<Rightarrow> string" where
  "determine_routing c =
     (let tier = qualification_tier c
      in if tier = ''hot'' then ''active_sales''
         else if tier = ''warm'' then ''nurture_warm''
         else if tier = ''cold'' then ''nurture_cold''
         else ''graveyard'')"

definition base_priority :: "string \<Rightarrow> real option" where
  "base_priority tier =
     (if tier = ''hot'' then Some 1.0 else if tier = ''warm'' then Some 0.6
      else if tier = ''cold'' then Some 0.3 else if tier = ''disqualified'' then Some 0.0
      else None)"

definition calculate_priority :: "LeadCoherence \<Rightarrow> real" where
  "calculate_priority c =
     (let base = get_or (base_priority (qualification_tier c)) 0.0;
          urgency_boost = q_urgency c * 0.2;
          authority_boost = rho_authority c * 0.15
      in min 1.0 (base + urgency_boost + authority_boost))"

text \<open>
  \<^verbatim>\<open>_update_stats\<close>: the total is incremented first, then the counter of the tier; a tier
  that is not a key of the dictionary raises \<^verbatim>\<open>KeyError\<close> with the total already incremented.
\<close>

definition update_stats :: "Stats \<Rightarrow> QualificationResult \<Rightarrow> error option \<times> Stats" where
  "update_stats st r =
     (let st = st\<lparr>total_qualified := total_qualified st + 1\<rparr>;
          tier = res_qualification_tier r
      in if tier = ''total_qualified'' then (None, st\<lparr>total_qualified := total_qualified st + 1\<rparr>)
         else if tier = ''hot'' then (None, st\<lparr>hot := hot st + 1\<rparr>)
         else if tier = ''warm'' then (None, st\<lparr>warm := warm st + 1\<rparr>)
         else if tier = ''cold'' then (None, st\<lparr>cold := cold st + 1\<rparr>)
         else if tier = ''disqualified'' then (None, st\<lparr>disqualified := disqualified st + 1\<rparr>)
         else (Some KeyError, st))"

text \<open>\<^verbatim>\<open>qualify\<close>: the result, or the exception, together with the qualifier afterwards.\<close>

definition qualify ::
  "LeadQualifier \<Rightarrow> LeadData \<Rightarrow> (error + QualificationResult) \<times> LeadQualifier" where
  "qualify self lead =
     (let c = perceive (lens self) lead;
          stage = determine_routing c;
          priority = calculate_priority c;
          is_qualified = (qualification_tier c \<noteq> ''disqualified'');
          result = \<lparr>res_lead_id = lead_id lead, res_company_name = company_name lead,
                    coherence = c, res_qualification_tier = qualification_tier c,
                    res_qualified = is_qualified, next_stage = stage, priority_score = priority,
                    qualified_by = ''rose_glass_auto'', res_lens_used = q_lens_name self,
                    trial_branch = Some (q_trial_branch self)\<rparr>
      in case update_stats (stats self) result of
           (Some e, st) \<Rightarrow> (Inl e, self\<lparr>stats := st\<rparr>)
         | (None, st) \<Rightarrow>
             (Inr result,
              self\<lparr>stats := st, qualification_log := qualification_log self @ [result]\<rparr>))"

text \<open>
  The loop of \<^verbatim>\<open>qualify_batch\<close>: a lead whose qualification raises is skipped, with the
  qualifier as the failed call left it.
\<close>

fun qualify_all ::
  "LeadQualifier \<Rightarrow> LeadData list \<Rightarrow> QualificationResult list
     \<Rightarrow> QualificationResult list \<times> LeadQualifier" where
  "qualify_all self [] results = (results, self)"
| "qualify_all self (lead # leads) results =
     (case qualify self lead of
        (Inr r, self') \<Rightarrow> qualify_all self' leads (results @ [r])
      | (Inl e, self') \<Rightarrow> qualify_all self' leads results)"

text \<open>
  \<^verbatim>\<open>xs.sort(key=f, reverse=True)\<close>: a stable sort into descending order of the key; elements
  with equal keys keep their order.
\<close>

definition sort_reverse :: "('a \<Rightarrow> real) \<Rightarrow> 'a list \<Rightarrow> 'a list" where
  "sort_reverse f xs = rev (sort_key f (rev xs))"

text \<open>
  \<^verbatim>\<open>qualify_batch\<close>. The summary that is logged after the sort divides each counter by
  \<^verbatim>\<open>len(leads)\<close>, so an empty batch raises \<^verbatim>\<open>ZeroDivisionError\<close>.
\<close>

definition qualify_batch ::
  "LeadQualifier \<Rightarrow> LeadData list \<Rightarrow> (error + QualificationResult list) \<times> LeadQualifier" where
  "qualify_batch self leads =
     (let (results, self') = qualify_all self leads [];
          results = sort_reverse priority_score results
      in if length leads = 0 then (Inl ZeroDivisionError, self') else (Inr results, self'))"

text \<open>The four leads of the qualifier's own demonstration.\<close>

definition hot001 :: LeadData where
  "hot001 = (new_lead ''hot001'' ''Acme Enterprise'')
     \<lparr>contact_name := Some ''John Smith'', contact_title := Some ''VP Engineering'',
      contact_email := Some ''john@acme.com'', industry := Some ''SaaS'',
      company_size := Some ''enterprise'', source := ''referral'',
      pain_points := [''security compliance'', ''access management'', ''audit requirements''],
      is_decision_maker := Some True, budget_mentioned := Some True,
      timeline_mentioned := Some ''this_quarter'', use_case := Some ''Replace legacy IAM system'',
      meeting_requests := 2\<rparr>"

definition warm001 :: LeadData where
  "warm001 = (new_lead ''warm001'' ''Beta Corp'')
     \<lparr>contact_name := Some ''Jane Doe'', contact_title := Some ''IT Manager'',
      industry := Some ''Fintech'', company_size := Some ''mid-market'', source := ''inbound'',
      pain_points := [''user management''], timeline_mentioned := Some ''next_quarter'',
      website_visits := 3\<rparr>"

definition cold001 :: LeadData where
  "cold001 = (new_lead ''cold001'' ''Gamma LLC'')
     \<lparr>contact_name := Some ''Bob Wilson'', contact_title := Some ''Engineer'',
      industry := Some ''Technology'', company_size := Some ''smb'', source := ''outbound'',
      website_visits := 1\<rparr>"

definition disq001 :: LeadData where
  "disq001 = (new_lead ''disq001'' ''Delta Consulting'')
     \<lparr>industry := Some ''Other'', company_size := Some ''startup'', source := ''unknown''\<rparr>"

section \<open>The trial manager\<close>

datatype TrialStatus = PLANNED | RUNNING | PAUSED | COMPLETED | PROMOTED | ARCHIVED

text \<open>A configuration is a dictionary of strings, numbers and nested dictionaries.\<close>

datatype cfg_value = CStr string | CNum real | CDict "(string \<times> cfg_value) list"

type_synonym config = "(string \<times> cfg_value) list"

text \<open>
  \<^verbatim>\<open>TrialBranch\<close>. The fields \<^verbatim>\<open>name\<close> and \<^verbatim>\<open>description\<close> carry the prefix \<open>branch_\<close>.
\<close>

record TrialBranch =
  branch_name :: string
  branch_description :: string
  config :: config
  leads_qualified :: int
  leads_hot :: int
  leads_warm :: int
  leads_cold :: int
  leads_disqualified :: int
  outcomes_won :: int
  outcomes_lost :: int
  total_revenue :: real
  total_cost :: real

text \<open>\<^verbatim>\<open>TrialBranch(name=..., description=..., config=...)\<close>.\<close>

definition new_branch :: "string \<Rightarrow> string \<Rightarrow> config \<Rightarrow> TrialBranch" where
  "new_branch n d c =
     \<lparr>branch_name = n, branch_description = d, config = c, leads_qualified = 0, leads_hot = 0,
      leads_warm = 0, leads_cold = 0, leads_disqualified = 0, outcomes_won = 0,
      outcomes_lost = 0, total_revenue = 0, total_cost = 0\<rparr>"

text \<open>Python's true division \<^verbatim>\<open>a / b\<close>: a zero divisor raises.\<close>

definition truediv :: "real \<Rightarrow> real \<Rightarrow> error + real" where
  "truediv a b = (if b = 0 then Inl ZeroDivisionError else Inr (a / b))"

text \<open>Sequencing of computations that may raise.\<close>

definition and_then :: "error + 'a \<Rightarrow> ('a \<Rightarrow> error + 'b) \<Rightarrow> error + 'b" where
  "and_then m f = (case m of Inl e \<Rightarrow> Inl e | Inr v \<Rightarrow> f v)"

definition qualification_rate :: "TrialBranch \<Rightarrow> error + real" where
  "qualification_rate self =
     (let total = leads_qualified self
      in if total = 0 then Inr 0.0
         else (let n = total - leads_disqualified self
               in truediv (real_of_int n) (real_of_int total)))"

definition conversion_rate :: "TrialBranch \<Rightarrow> error + real" where
  "conversion_rate self =
     (let total_outcomes = outcomes_won self + outcomes_lost self
      in if total_outcomes = 0 then Inr 0.0
         else truediv (real_of_int (outcomes_won self)) (real_of_int total_outcomes))"

definition avg_deal_value :: "TrialBranch \<Rightarrow> error + real" where
  "avg_deal_value self =
     (if outcomes_won self = 0 then Inr 0.0
      else truediv (total_revenue self) (real_of_int (outcomes_won self)))"

definition roi :: "TrialBranch \<Rightarrow> error + real" where
  "roi self =
     (if total_cost self = 0 then Inr 0.0
      else truediv (total_revenue self - total_cost self) (total_cost self))"

definition fitness_score :: "TrialBranch \<Rightarrow> error + real" where
  "fitness_score self =
     and_then (avg_deal_value self) (\<lambda>avg.
     and_then (truediv avg 100000) (\<lambda>w.
       let revenue_weight = min w 1.0 in
     and_then (qualification_rate self) (\<lambda>qr.
     and_then (conversion_rate self) (\<lambda>cr.
       Inr (qr * 0.3 + cr * 0.5 + revenue_weight * 0.2)))))"

text \<open>
  \<^verbatim>\<open>Trial\<close>. The fields \<^verbatim>\<open>name\<close>, \<^verbatim>\<open>description\<close> and \<^verbatim>\<open>confidence\<close> carry the prefix
  \<open>trial_\<close>; \<^verbatim>\<open>started_at\<close> and \<^verbatim>\<open>completed_at\<close> are timestamps and are left out.
\<close>

record Trial =
  trial_id :: string
  trial_name :: string
  trial_description :: string
  classic_branch :: TrialBranch
  experimental_branch :: TrialBranch
  traffic_split :: real
  min_sample_size :: int
  confidence_threshold :: real
  status :: TrialStatus
  winner :: "string option"
  trial_confidence :: "real option"

definition start :: "Trial \<Rightarrow> Trial" where
  "start self = self\<lparr>status := RUNNING\<rparr>"

definition pause :: "Trial \<Rightarrow> Trial" where
  "pause self = self\<lparr>status := PAUSED\<rparr>"

definition resume :: "Trial \<Rightarrow> Trial" where
  "resume self = self\<lparr>status := RUNNING\<rparr>"

definition is_ready_for_evaluation :: "Trial \<Rightarrow> bool" where
  "is_ready_for_evaluation self =
     (leads_qualified (classic_branch self) \<ge> min_sample_size self \<and>
      leads_qualified (experimental_branch self) \<ge> min_sample_size self)"

text \<open>\<^verbatim>\<open>assign_branch\<close>; \<open>u\<close> is the value that \<^verbatim>\<open>random.random()\<close> draws.\<close>

definition assign_branch :: "Trial \<Rightarrow> real \<Rightarrow> string" where
  "assign_branch self u =
     (if status self \<noteq> RUNNING then ''classic''
      else if u < traffic_split self then ''experimental'' else ''classic'')"

text \<open>
  \<^verbatim>\<open>TrialResult\<close>. The fields \<^verbatim>\<open>trial_id\<close>, \<^verbatim>\<open>winner\<close> and \<^verbatim>\<open>confidence\<close> carry the prefix
  \<open>result_\<close>; the rationale is a text with formatted numbers and is left out, as is the
  timestamp \<^verbatim>\<open>evaluated_at\<close>.
\<close>

record TrialResult =
  result_trial_id :: string
  result_winner :: string
  result_confidence :: real
  classic_fitness :: real
  experimental_fitness :: real
  improvement :: real
  recommendation :: string

text \<open>An entry of the standards history (without its timestamp \<^verbatim>\<open>replaced_at\<close>).\<close>

record StandardsEntry =
  entry_config :: config
  replaced_by :: string
  entry_trial_id :: string

text \<open>
  The manager: its trials, the standards history, and the content of the file
  \<^verbatim>\<open>current_standard.json\<close> (\<open>None\<close> while the file does not exist).
\<close>

record TrialManager =
  trials :: "Trial list"
  standards_history :: "StandardsEntry list"
  current_standard :: "config option"

text \<open>
  \<^verbatim>\<open>TrialManager.__init__\<close>: \<^verbatim>\<open>_load_trials\<close> only logs the trials it finds on disk, so a new
  manager tracks no trial.
\<close>

definition new_manager :: "config option \<Rightarrow> TrialManager" where
  "new_manager standard = \<lparr>trials = [], standards_history = [], current_standard = standard\<rparr>"

definition default_standard :: config where
  "default_standard =
     [(''lens'', CStr ''enterprise_saas''),
      (''weights'', CDict [(''psi_intent'', CNum 0.25), (''rho_authority'', CNum 0.30),
                          (''q_urgency'', CNum 0.25), (''f_fit'', CNum 0.20)]),
      (''approach'', CStr ''classic_rose_glass'')]"

definition get_current_standard :: "TrialManager \<Rightarrow> config" where
  "get_current_standard self =
     (case current_standard self of Some c \<Rightarrow> c | None \<Rightarrow> default_standard)"

definition save_standard :: "TrialManager \<Rightarrow> config \<Rightarrow> TrialManager" where
  "save_standard self c = self\<lparr>current_standard := Some c\<rparr>"

text \<open>\<^verbatim>\<open>_get_trial\<close>: the first trial with the identifier.\<close>

definition get_trial :: "TrialManager \<Rightarrow> string \<Rightarrow> Trial option" where
  "get_trial self tid = find (\<lambda>t. trial_id t = tid) (trials self)"

text \<open>
  An assignment to a field of the object that \<^verbatim>\<open>_get_trial\<close> returned changes the first
  element of the list that satisfies the test.
\<close>

fun update_first :: "('a \<Rightarrow> bool) \<Rightarrow> ('a \<Rightarrow> 'a) \<Rightarrow> 'a list \<Rightarrow> 'a list" where
  "update_first p f [] = []"
| "update_first p f (x # xs) = (if p x then f x # xs else x # update_first p f xs)"

definition update_trial :: "TrialManager \<Rightarrow> string \<Rightarrow> (Trial \<Rightarrow> Trial) \<Rightarrow> TrialManager" where
  "update_trial self tid f = self\<lparr>trials := update_first (\<lambda>t. trial_id t = tid) f (trials self)\<rparr>"

text \<open>
  \<^verbatim>\<open>_get_branch\<close> chooses the classic branch when the name contains \<^verbatim>\<open>classic\<close>, and the
  experimental branch otherwise; the function given is applied to the chosen branch.
\<close>

definition on_branch :: "string \<Rightarrow> (TrialBranch \<Rightarrow> TrialBranch) \<Rightarrow> Trial \<Rightarrow> Trial" where
  "on_branch branch f t =
     (if str_in ''classic'' (lower branch) then t\<lparr>classic_branch := f (classic_branch t)\<rparr>
      else t\<lparr>experimental_branch := f (experimental_branch t)\<rparr>)"

text \<open>
  \<^verbatim>\<open>create_trial\<close>; \<open>now\<close> is the text that \<^verbatim>\<open>datetime.now().strftime('%Y%m%d_%H%M%S')\<close>
  returns.
\<close>

definition create_trial ::
  "TrialManager \<Rightarrow> string \<Rightarrow> string \<Rightarrow> config \<Rightarrow> real \<Rightarrow> int \<Rightarrow> string \<Rightarrow> Trial \<times> TrialManager" where
  "create_trial self name description experimental_config split min_size now =
     (let tid = ''trial_'' @ now;
          classic = new_branch ''classic'' ''Current standard approach'' (get_current_standard self);
          experimental = new_branch (''experimental_'' @ tid) description experimental_config;
          trial = \<lparr>trial_id = tid, trial_name = name, trial_description = description,
                   classic_branch = classic, experimental_branch = experimental,
                   traffic_split = split, min_sample_size = min_size,
                   confidence_threshold = 0.95, status = PLANNED, winner = None,
                   trial_confidence = None\<rparr>
      in (trial, self\<lparr>trials := trials self @ [trial]\<rparr>))"

definition count_qualification :: "string \<Rightarrow> TrialBranch \<Rightarrow> TrialBranch" where
  "count_qualification tier b =
     (let b = b\<lparr>leads_qualified := leads_qualified b + 1\<rparr>
      in if tier = ''hot'' then b\<lparr>leads_hot := leads_hot b + 1\<rparr>
         else if tier = ''warm'' then b\<lparr>leads_warm := leads_warm b + 1\<rparr>
         else if tier = ''cold'' then b\<lparr>leads_cold := leads_cold b + 1\<rparr>
         else if tier = ''disqualified'' then b\<lparr>leads_disqualified := leads_disqualified b + 1\<rparr>
         else b)"

definition record_qualification :: "TrialManager \<Rightarrow> string \<Rightarrow> string \<Rightarrow> string \<Rightarrow> TrialManager" where
  "record_qualification self tid branch tier =
     (case get_trial self tid of
        None \<Rightarrow> self
      | Some trial \<Rightarrow> update_trial self tid (on_branch branch (count_qualification tier)))"

definition count_outcome :: "string \<Rightarrow> real \<Rightarrow> real \<Rightarrow> TrialBranch \<Rightarrow> TrialBranch" where
  "count_outcome outcome_type deal_value cost b =
     (let b = (if outcome_type = ''won''
               then b\<lparr>outcomes_won := outcomes_won b + 1,
                      total_revenue := total_revenue b + deal_value\<rparr>
               else b\<lparr>outcomes_lost := outcomes_lost b + 1\<rparr>)
      in b\<lparr>total_cost := total_cost b + cost\<rparr>)"

definition record_outcome ::
  "TrialManager \<Rightarrow> string \<Rightarrow> string \<Rightarrow> string \<Rightarrow> real \<Rightarrow> real \<Rightarrow> TrialManager" where
  "record_outcome self tid branch outcome_type deal_value cost =
     (case get_trial self tid of
        None \<Rightarrow> self
      | Some trial \<Rightarrow>
          update_trial self tid (on_branch branch (count_outcome outcome_type deal_value cost)))"

text \<open>\<^verbatim>\<open>_calculate_confidence\<close>: the sample term is computed first, then the two fitness scores.\<close>

definition trial_calculate_confidence :: "Trial \<Rightarrow> error + real" where
  "trial_calculate_confidence trial =
     (let classic_n = leads_qualified (classic_branch trial);
          exp_n = leads_qualified (experimental_branch trial)
      in and_then (truediv (real_of_int (classic_n + exp_n))
                           (real_of_int (min_sample_size trial * 4))) (\<lambda>s.
           let sample_confidence = min s 1.0 in
         and_then (fitness_score (classic_branch trial)) (\<lambda>cf.
         and_then (fitness_score (experimental_branch trial)) (\<lambda>ef.
           let fitness_diff = \<bar>cf - ef\<bar>;
               difference_confidence = min (fitness_diff / 0.2) 1.0
           in Inr ((sample_confidence + difference_confidence) / 2)))))"

text \<open>
  \<^verbatim>\<open>evaluate_trial\<close>: the result (or \<^verbatim>\<open>None\<close>) with the manager afterwards, or the exception
  raised. Every exception is raised before the trial is changed.
\<close>

definition evaluate_trial ::
  "TrialManager \<Rightarrow> string \<Rightarrow> error + (TrialResult option \<times> TrialManager)" where
  "evaluate_trial self tid =
     (case get_trial self tid of
        None \<Rightarrow> Inr (None, self)
      | Some trial \<Rightarrow>
          if \<not> is_ready_for_evaluation trial then Inr (None, self)
          else
            and_then (fitness_score (classic_branch trial)) (\<lambda>cf.
            and_then (fitness_score (experimental_branch trial)) (\<lambda>ef.
            and_then
              (if ef > cf * 1.05 then
                 and_then (truediv (ef - cf) cf) (\<lambda>d.
                 and_then (trial_calculate_confidence trial) (\<lambda>c.
                   Inr (''experimental'', d * 100, c,
                        if c > 0.95 then ''promote'' else ''continue'')))
               else if cf > ef * 1.05 then
                 and_then (truediv (cf - ef) ef) (\<lambda>d.
                 and_then (trial_calculate_confidence trial) (\<lambda>c.
                   Inr (''classic'', d * 100, c, ''archive'')))
               else Inr (''inconclusive'', 0.0, 0.0, ''continue''))
              (\<lambda>(w, imp, c, rec).
                 let result = \<lparr>result_trial_id = tid, result_winner = w, result_confidence = c,
                                classic_fitness = cf, experimental_fitness = ef,
                                improvement = imp, recommendation = rec\<rparr>
                 in Inr (Some result,
                         update_trial self tid
                           (\<lambda>t. t\<lparr>winner := Some w, trial_confidence := Some c\<rparr>))))))"

text \<open>
  \<^verbatim>\<open>promote_experimental\<close>. The last log line formats the confidence of the trial as a
  percentage, which raises \<^verbatim>\<open>TypeError\<close> when the confidence is \<^verbatim>\<open>None\<close>; the promotion has
  taken place by then.
\<close>

definition promote_experimental :: "TrialManager \<Rightarrow> string \<Rightarrow> error option \<times> TrialManager" where
  "promote_experimental self tid =
     (case get_trial self tid of
        None \<Rightarrow> (None, self)
      | Some trial \<Rightarrow>
          if winner trial \<noteq> Some ''experimental'' then (None, self)
          else
            (let old_standard = get_current_standard self;
                 self = self\<lparr>standards_history := standards_history self @
                          [\<lparr>entry_config = old_standard,
                            replaced_by = branch_name (experimental_branch trial),
                            entry_trial_id = tid\<rparr>]\<rparr>;
                 new_standard = config (experimental_branch trial);
                 self = save_standard self new_standard;
                 self = update_trial self tid (\<lambda>t. t\<lparr>status := PROMOTED\<rparr>)
             in (if trial_confidence trial = None then Some TypeError else None, self)))"

definition archive_trial :: "TrialManager \<Rightarrow> string \<Rightarrow> TrialManager" where
  "archive_trial self tid =
     (case get_trial self tid of
        None \<Rightarrow> self
      | Some trial \<Rightarrow> update_trial self tid (\<lambda>t. t\<lparr>status := ARCHIVED\<rparr>))"

definition get_active_trial :: "TrialManager \<Rightarrow> Trial option" where
  "get_active_trial self = find (\<lambda>t. status t = RUNNING) (trials self)"

subsection \<open>Histories of a manager\<close>

text \<open>
  The calls a client can make on a manager and on the trials it hands out. A call on a
  trial object names the trial by its position in the manager's list.
\<close>

datatype manager_call =
    CreateTrial string string config real int string
  | StartTrial nat
  | PauseTrial nat
  | ResumeTrial nat
  | RecordQualification string string string
  | RecordOutcome string string string real real
  | EvaluateTrial string
  | PromoteExperimental string
  | ArchiveTrial string

definition on_trial :: "nat \<Rightarrow> (Trial \<Rightarrow> Trial) \<Rightarrow> TrialManager \<Rightarrow> TrialManager" where
  "on_trial i f self =
     (if i < length (trials self) then self\<lparr>trials := (trials self)[i := f (trials self ! i)]\<rparr>
      else self)"

text \<open>The manager after one call; a call that raises leaves the manager as the exception found it.\<close>

fun call :: "TrialManager \<Rightarrow> manager_call \<Rightarrow> TrialManager" where
  "call self (CreateTrial name description cfg split min_size now) =
     snd (create_trial self name description cfg split min_size now)"
| "call self (StartTrial i) = on_trial i start self"
| "call self (PauseTrial i) = on_trial i pause self"
| "call self (ResumeTrial i) = on_trial i resume self"
| "call self (RecordQualification tid branch tier) = record_qualification self tid branch tier"
| "call self (RecordOutcome tid branch outcome_type deal_value cost) =
     record_outcome self tid branch outcome_type deal_value cost"
| "call self (EvaluateTrial tid) =
     (case evaluate_trial self tid of Inl e \<Rightarrow> self | Inr (r, self') \<Rightarrow> self')"
| "call self (PromoteExperimental tid) = snd (promote_experimental self tid)"
| "call self (ArchiveTrial tid) = archive_trial self tid"

definition run_calls :: "TrialManager \<Rightarrow> manager_call list \<Rightarrow> TrialManager" where
  "run_calls self cs = foldl call self cs"

text \<open>The counters of a branch are counts: none of them is negative.\<close>

definition counts_ok :: "TrialBranch \<Rightarrow> bool" where
  "counts_ok b =
     (0 \<le> leads_qualified b \<and> 0 \<le> leads_hot b \<and> 0 \<le> leads_warm b \<and> 0 \<le> leads_cold b
      \<and> 0 \<le> leads_disqualified b \<and> 0 \<le> outcomes_won b \<and> 0 \<le> outcomes_lost b)"

definition trial_counts_ok :: "Trial \<Rightarrow> bool" where
  "trial_counts_ok t = (counts_ok (classic_branch t) \<and> counts_ok (experimental_branch t))"

subsection \<open>Sample branches and histories\<close>

text \<open>A branch with four qualified leads, one per tier, one deal won and one lost.\<close>

definition sample_branch :: TrialBranch where
  "sample_branch = (new_branch ''classic'' ''Current standard approach'' default_standard)
     \<lparr>leads_qualified := 4, leads_hot := 1, leads_warm := 1, leads_cold := 1,
      leads_disqualified := 1, outcomes_won := 1, outcomes_lost := 1,
      total_revenue := 50000, total_cost := 5000\<rparr>"

text \<open>The experimental configuration of the trial manager's own demonstration.\<close>

definition demo_config :: config where
  "demo_config =
     [(''lens'', CStr ''enterprise_saas''),
      (''weights'', CDict [(''psi_intent'', CNum 0.20), (''rho_authority'', CNum 0.40),
                          (''q_urgency'', CNum 0.20), (''f_fit'', CNum 0.20)]),
      (''approach'', CStr ''authority_weighted'')]"

definition demo_id :: string where
  "demo_id = ''trial_20260101_120000''"

text \<open>A trial with a sample size of two leads per branch is created and started.\<close>

definition demo_start :: "manager_call list" where
  "demo_start =
     [CreateTrial ''Authority-Weighted Lens'' ''Test increasing the authority weight''
        demo_config 0.5 2 ''20260101_120000'',
      StartTrial 0]"

text \<open>Only the classic branch has its two leads: the trial is not ready.\<close>

definition unready_calls :: "manager_call list" where
  "unready_calls = demo_start @
     [RecordQualification demo_id ''classic'' ''hot'',
      RecordQualification demo_id ''classic'' ''warm'',
      RecordQualification demo_id ''experimental'' ''hot'']"

text \<open>Both branches qualify the same leads: the fitness scores are equal.\<close>

definition tied_calls :: "manager_call list" where
  "tied_calls = demo_start @
     [RecordQualification demo_id ''classic'' ''hot'',
      RecordQualification demo_id ''classic'' ''warm'',
      RecordQualification demo_id ''experimental'' ''hot'',
      RecordQualification demo_id ''experimental'' ''warm'']"

text \<open>The classic branch disqualifies one of its two leads: the experimental branch is fitter.\<close>

definition experimental_calls :: "manager_call list" where
  "experimental_calls = demo_start @
     [RecordQualification demo_id ''classic'' ''disqualified'',
      RecordQualification demo_id ''classic'' ''hot'',
      RecordQualification demo_id ''experimental'' ''hot'',
      RecordQualification demo_id ''experimental'' ''hot'']"

text \<open>The experimental branch disqualifies one of its two leads: the classic branch is fitter.\<close>

definition classic_calls :: "manager_call list" where
  "classic_calls = demo_start @
     [RecordQualification demo_id ''classic'' ''hot'',
      RecordQualification demo_id ''classic'' ''hot'',
      RecordQualification demo_id ''experimental'' ''disqualified'',
      RecordQualification demo_id ''experimental'' ''hot'']"

text \<open>
  The confidence as the specification words it: the average of the combined sample size
  relative to four times the minimum sample size, capped at 1, and of the absolute
  difference of the two fitness scores relative to 0.2, capped at 1.
\<close>

definition stated_confidence :: "Trial \<Rightarrow> TrialResult \<Rightarrow> real" where
  "stated_confidence t r =
     (min (real_of_int (leads_qualified (classic_branch t) + leads_qualified (experimental_branch t))
           / real_of_int (4 * min_sample_size t)) 1
      + min (\<bar>classic_fitness r - experimental_fitness r\<bar> / 0.2) 1) / 2"

section \<open>The graveyard\<close>

text \<open>
  An entry of a dictionary that is expected to hold a number: the key is missing, or it
  holds \<^verbatim>\<open>None\<close>, or it holds a number.
\<close>

datatype entry = Missing | PyNone | Number real

text \<open>\<^verbatim>\<open>d.get(key, default)\<close> on such an entry; \<open>None\<close> is Python's \<^verbatim>\<open>None\<close>.\<close>

definition get_default :: "entry \<Rightarrow> real \<Rightarrow> real option" where
  "get_default e d = (case e of Missing \<Rightarrow> Some d | PyNone \<Rightarrow> None | Number v \<Rightarrow> Some v)"

text \<open>\<^verbatim>\<open>d.get(key)\<close> on such an entry.\<close>

definition get_entry :: "entry \<Rightarrow> real option" where
  "get_entry e = (case e of Missing \<Rightarrow> None | PyNone \<Rightarrow> None | Number v \<Rightarrow> Some v)"

text \<open>The comparison \<^verbatim>\<open>v > x\<close> with a number \<open>x\<close>: \<^verbatim>\<open>None\<close> on the left raises.\<close>

definition py_gt :: "real option \<Rightarrow> real \<Rightarrow> error + bool" where
  "py_gt v x = (case v of None \<Rightarrow> Inl TypeError | Some a \<Rightarrow> Inr (a > x))"

text \<open>\<^verbatim>\<open>d[key]\<close>: a missing key raises.\<close>

definition subscript :: "'a option \<Rightarrow> error + 'a" where
  "subscript v = (case v of None \<Rightarrow> Inl KeyError | Some a \<Rightarrow> Inr a)"

text \<open>The dictionary under the key \<^verbatim>\<open>learnings\<close>; \<open>None\<close> stands for a missing key.\<close>

record Learnings =
  what_went_wrong :: "string list option"
  lesson_learned :: "string option"

text \<open>
  The outcome dictionary that \<^verbatim>\<open>bury_lead\<close> receives, with the keys that the extraction
  reads. For the keys read with \<^verbatim>\<open>get\<close> and no default, \<open>None\<close> stands for a missing key as
  well as for the value \<^verbatim>\<open>None\<close>; for the three keys read by subscript, \<open>None\<close> stands for
  a missing key.
\<close>

record OutcomeDict =
  o_lead_id :: "string option"
  o_company_name :: "string option"
  o_outcome_type :: "string option"
  o_qualification_tier :: "string option"
  o_coherence_score :: entry
  o_trial_branch :: "string option"
  o_expected_value :: entry
  o_competitor_chosen :: "string option"
  learnings :: "Learnings option"

text \<open>\<^verbatim>\<open>Nutrient\<close>, without its timestamp \<^verbatim>\<open>extracted_at\<close>.\<close>

record Nutrient =
  n_lead_id :: string
  n_company_name :: string
  n_outcome_type :: string
  category :: string
  lesson :: string
  severity :: string
  n_qualification_tier :: "string option"
  n_coherence_score :: "real option"
  n_trial_branch :: "string option"
  applied_to_standard :: bool

text \<open>The manager's lists of nutrients and of buried outcomes.\<close>

record GraveyardManager =
  nutrients :: "Nutrient list"
  graveyard_leads :: "OutcomeDict list"

text \<open>The category keywords, in the order of the dictionary.\<close>

definition categories :: "(string \<times> string list) list" where
  "categories =
     [(''qualification'', [''qualify'', ''icp'', ''fit'', ''criteria'', ''disqualif'']),
      (''messaging'', [''message'', ''value'', ''positioning'', ''communication'', ''pitch'']),
      (''timing'', [''timing'', ''timeline'', ''urgency'', ''too early'', ''too late'']),
      (''authority'', [''authority'', ''decision'', ''stakeholder'', ''champion'', ''multi-thread'']),
      (''pricing'', [''price'', ''budget'', ''cost'', ''expensive'', ''roi'']),
      (''competitive'', [''competitor'', ''competitive'', ''alternative'', ''comparison'']),
      (''engagement'', [''engagement'', ''response'', ''dark'', ''ghosted'', ''follow-up'']),
      (''technical'', [''technical'', ''integration'', ''feature'', ''requirement''])]"

definition categorize_issue :: "string \<Rightarrow> string" where
  "categorize_issue issue =
     (let issue_lower = lower issue
      in case find (\<lambda>(cat, keywords). list_ex (\<lambda>kw. str_in kw issue_lower) keywords) categories of
           Some (cat, keywords) \<Rightarrow> cat
         | None \<Rightarrow> ''general'')"

definition assess_severity :: "string \<Rightarrow> OutcomeDict \<Rightarrow> error + string" where
  "assess_severity issue outcome =
     (let expected_value = get_default (o_expected_value outcome) 0;
          coh = get_default (o_coherence_score outcome) 0
      in and_then (py_gt expected_value 50000) (\<lambda>high_value.
           if high_value then Inr ''critical''
           else and_then (py_gt coh 2.5) (\<lambda>was_hot.
                  if was_hot then Inr ''critical''
                  else and_then (py_gt coh 1.5) (\<lambda>was_warm.
                         if was_warm then Inr ''moderate'' else Inr ''minor''))))"

text \<open>\<^verbatim>\<open>learnings.get('what_went_wrong', [])\<close> with \<^verbatim>\<open>learnings = outcome.get('learnings', {})\<close>.\<close>

definition issues_of :: "OutcomeDict \<Rightarrow> string list" where
  "issues_of outcome =
     (case learnings outcome of
        None \<Rightarrow> []
      | Some l \<Rightarrow> (case what_went_wrong l of None \<Rightarrow> [] | Some xs \<Rightarrow> xs))"

definition lesson_of :: "OutcomeDict \<Rightarrow> string option" where
  "lesson_of outcome = (case learnings outcome of None \<Rightarrow> None | Some l \<Rightarrow> lesson_learned l)"

text \<open>A loop that appends one computed element per item and stops at the first exception.\<close>

fun map_err :: "('a \<Rightarrow> error + 'b) \<Rightarrow> 'a list \<Rightarrow> error + 'b list" where
  "map_err f [] = Inr []"
| "map_err f (x # xs) =
     and_then (f x) (\<lambda>y. and_then (map_err f xs) (\<lambda>ys. Inr (y # ys)))"

text \<open>
  \<^verbatim>\<open>_extract_nutrients\<close>. \<open>fmt\<close> is the formatting of a number with two decimals
  (\<^verbatim>\<open>:.2f\<close>), which the lesson of a disqualified outcome uses.
\<close>

definition extract_nutrients :: "(real \<Rightarrow> string) \<Rightarrow> OutcomeDict \<Rightarrow> error + Nutrient list" where
  "extract_nutrients fmt outcome =
     and_then (subscript (o_lead_id outcome)) (\<lambda>lid.
     and_then (subscript (o_company_name outcome)) (\<lambda>cname.
     and_then (subscript (o_outcome_type outcome)) (\<lambda>otype.
       let make = (\<lambda>cat text sev tier.
             \<lparr>n_lead_id = lid, n_company_name = cname, n_outcome_type = otype,
              category = cat, lesson = text, severity = sev, n_qualification_tier = tier,
              n_coherence_score = get_entry (o_coherence_score outcome),
              n_trial_branch = o_trial_branch outcome, applied_to_standard = False\<rparr>)
       in
     and_then (map_err (\<lambda>issue.
                 and_then (assess_severity issue outcome) (\<lambda>sev.
                   Inr (make (categorize_issue issue) issue sev (o_qualification_tier outcome))))
               (issues_of outcome)) (\<lambda>from_issues.
       let from_lesson =
             (if truthy (lesson_of outcome)
              then [make (categorize_issue (or_empty (lesson_of outcome)))
                      (or_empty (lesson_of outcome)) ''moderate'' (o_qualification_tier outcome)]
              else [])
       in
     and_then
       (if otype = ''lost_competitor'' then
          (if truthy (o_competitor_chosen outcome)
           then Inr [make ''competitive''
                      (''Lost to '' @ or_empty (o_competitor_chosen outcome)
                         @ '' - analyze competitive positioning'')
                      ''moderate'' (o_qualification_tier outcome)]
           else Inr [])
        else if otype = ''lost_dark'' then
          Inr [make ''engagement''
                 ''Lead went dark - review engagement cadence and value delivery''
                 ''moderate'' (o_qualification_tier outcome)]
        else if otype = ''disqualified'' then
          (case get_default (o_coherence_score outcome) 0 of
             None \<Rightarrow> Inl TypeError
           | Some v \<Rightarrow>
               Inr [make ''qualification''
                      (''Disqualified with coherence '' @ fmt v @ '' - review qualification criteria'')
                      ''minor'' (Some ''disqualified'')])
        else Inr [])
       (\<lambda>from_type. Inr (from_issues @ from_lesson @ from_type))))))"

text \<open>
  \<^verbatim>\<open>bury_lead\<close>: the nutrients (or the exception) with the manager afterwards. The outcome
  is appended to the buried leads before anything can raise; the name of the file it is
  saved to needs the keys \<^verbatim>\<open>lead_id\<close> and \<^verbatim>\<open>outcome_type\<close>.
\<close>

definition bury_lead ::
  "(real \<Rightarrow> string) \<Rightarrow> GraveyardManager \<Rightarrow> OutcomeDict
     \<Rightarrow> (error + Nutrient list) \<times> GraveyardManager" where
  "bury_lead fmt self outcome =
     (let self = self\<lparr>graveyard_leads := graveyard_leads self @ [outcome]\<rparr>
      in case and_then (subscript (o_lead_id outcome)) (\<lambda>lid.
              and_then (subscript (o_outcome_type outcome)) (\<lambda>otype.
                extract_nutrients fmt outcome)) of
           Inl e \<Rightarrow> (Inl e, self)
         | Inr ns \<Rightarrow> (Inr ns, self\<lparr>nutrients := nutrients self @ ns\<rparr>))"

text \<open>
  The severity as the specification words it: \<^verbatim>\<open>critical\<close> if the expected deal value
  exceeds 50000 or the coherence at failure exceeds 2.5, \<^verbatim>\<open>moderate\<close> if the coherence
  exceeds 1.5, else \<^verbatim>\<open>minor\<close>. An entry that holds no number exceeds nothing.
\<close>

definition exceeds :: "entry \<Rightarrow> real \<Rightarrow> bool" where
  "exceeds e x = (case e of Number v \<Rightarrow> v > x | Missing \<Rightarrow> False | PyNone \<Rightarrow> False)"

definition stated_severity :: "OutcomeDict \<Rightarrow> string" where
  "stated_severity outcome =
     (if exceeds (o_expected_value outcome) 50000 \<or> exceeds (o_coherence_score outcome) 2.5
      then ''critical''
      else if exceeds (o_coherence_score outcome) 1.5 then ''moderate''
      else ''minor'')"

text \<open>The two outcomes of the graveyard manager's own demonstration.\<close>

definition lost001 :: OutcomeDict where
  "lost001 =
     \<lparr>o_lead_id = Some ''lost001'', o_company_name = Some ''Acme Corp'',
      o_outcome_type = Some ''lost_competitor'', o_qualification_tier = Some ''hot'',
      o_coherence_score = Number 3.1, o_trial_branch = Some ''classic'',
      o_expected_value = Number 50000, o_competitor_chosen = Some ''Competitor X'',
      learnings = Some \<lparr>what_went_wrong =
                          Some [''Did not multi-thread to other stakeholders'', ''Lost on price''],
                        lesson_learned = Some ''Need better competitive pricing strategy''\<rparr>\<rparr>"

definition lost002 :: OutcomeDict where
  "lost002 =
     \<lparr>o_lead_id = Some ''lost002'', o_company_name = Some ''Beta Inc'',
      o_outcome_type = Some ''lost_dark'', o_qualification_tier = Some ''warm'',
      o_coherence_score = Number 2.1, o_trial_branch = Some ''classic'',
      o_expected_value = Number 30000, o_competitor_chosen = None,
      learnings = Some \<lparr>what_went_wrong = Some [''Unclear next steps after demo''],
                        lesson_learned = Some ''Always establish clear next steps''\<rparr>\<rparr>"

definition new_graveyard :: GraveyardManager where
  "new_graveyard = \<lparr>nutrients = [], graveyard_leads = []\<rparr>"

section \<open>Properties of the lens\<close>

subsection \<open>The urgency transform\<close>

lemma denom_pos: "0 < x \<Longrightarrow> 0 < KM + x + x ^ 2 / KI"
  by (simp add: KM_def KI_def add_pos_nonneg)

lemma bio_nonneg: "0 \<le> biological_optimization x"
proof (cases "x \<le> 0")
  case True
  then show ?thesis by (simp add: biological_optimization_def)
next
  case False
  then have "0 < KM + x + x ^ 2 / KI" using denom_pos [of x] by simp
  with False show ?thesis by (simp add: biological_optimization_def)
qed

text \<open>The transform peaks at \<open>raw = 0.4\<close> with the value one half.\<close>

lemma bio_le_half: "biological_optimization x \<le> 1 / 2"
proof (cases "x \<le> 0")
  case True
  then show ?thesis by (simp add: biological_optimization_def)
next
  case False
  then have pos: "0 < x" by simp
  have sq: "0 \<le> (x - 2 / 5) ^ 2" by simp
  have "2 * x \<le> KM + x + x ^ 2 / KI"
    using sq by (simp add: KM_def KI_def power2_eq_square algebra_simps)
  then have "x / (KM + x + x ^ 2 / KI) \<le> 1 / 2"
    using denom_pos [OF pos] by (simp add: field_simps)
  with False show ?thesis by (simp add: biological_optimization_def)
qed

lemma bio_cont: "continuous_on {0..4} biological_optimization"
proof -
  have "continuous_on {0..4} (\<lambda>x::real. x / (KM + x + x ^ 2 / KI))"
  proof (intro continuous_intros ballI)
    fix x :: real assume "x \<in> {0..4}"
    then have "0 \<le> x" by simp
    then have "0 < KM + x + x ^ 2 / KI"
      by (simp add: KM_def KI_def add_pos_nonneg)
    then show "KM + x + x ^ 2 / KI \<noteq> 0" by simp
  qed (simp_all add: KI_def)
  moreover have "\<And>x. x \<in> {0..4} \<Longrightarrow> biological_optimization x = x / (KM + x + x ^ 2 / KI)"
    by (simp add: biological_optimization_def)
  ultimately show ?thesis
    using continuous_on_cong [of "{0..4}" "{0..4}" biological_optimization
        "\<lambda>x. x / (KM + x + x ^ 2 / KI)"] by blast
qed

text \<open>
  Claim C1. For every raw urgency input the transform returns 0 when \<open>raw \<le> 0\<close> and
  \<open>raw / (0.2 + raw + raw\<^sup>2 / 0.8)\<close> otherwise; on the interval from 0 to 4 it is continuous,
  it is 0 at 0, and it is nowhere negative.
\<close>

theorem C1_urgency_transform:
  "biological_optimization raw = (if raw \<le> 0 then 0 else raw / (0.2 + raw + raw\<^sup>2 / 0.8))
   \<and> continuous_on {0..4} biological_optimization
   \<and> biological_optimization 0 = 0
   \<and> 0 \<le> biological_optimization raw"
  using bio_cont bio_nonneg by (simp add: biological_optimization_def KM_def KI_def)

theorem C1_urgency_transform_witness:
  "biological_optimization (2 / 5) = 1 / 2 \<and> biological_optimization (- 1) = 0
   \<and> continuous_on {0..4} biological_optimization"
  using C1_urgency_transform [of "2 / 5"] C1_urgency_transform [of "- 1"]
  by (simp add: power2_eq_square)

subsection \<open>Projections of a reading\<close>

lemma perceive_coherence:
  "coherence_score (perceive self lead) =
     calculate_coherence self (extract_psi_intent lead) (extract_rho_authority lead)
          (biological_optimization (extract_q_urgency lead)) (extract_f_fit lead)"
  by (simp add: perceive_def Let_def split: prod.splits)

lemma perceive_tier:
  "qualification_tier (perceive self lead) =
     determine_tier self
       (calculate_coherence self (extract_psi_intent lead) (extract_rho_authority lead)
          (biological_optimization (extract_q_urgency lead)) (extract_f_fit lead))
       (extract_psi_intent lead) (extract_rho_authority lead)
       (biological_optimization (extract_q_urgency lead)) (extract_f_fit lead)"
  by (simp add: perceive_def Let_def split: prod.splits)

lemma perceive_positive:
  "positive_signals (perceive self lead) =
     fst (detect_signals lead (extract_psi_intent lead) (extract_rho_authority lead)
          (biological_optimization (extract_q_urgency lead)) (extract_f_fit lead))"
  by (simp add: perceive_def Let_def split: prod.splits)

lemma perceive_dims:
  "rho_authority (perceive self lead) = extract_rho_authority lead"
  "q_urgency (perceive self lead) = biological_optimization (extract_q_urgency lead)"
  by (simp_all add: perceive_def Let_def split: prod.splits)

subsection \<open>The referral scenario\<close>

lemma psi_scenario: "extract_psi_intent (scenario_lead lid cname p1 p2 p3) = 0.7"
  by (simp add: scenario_lead_def new_lead_def extract_psi_intent_def source_weights_def
      get_or_def truthy_def)

lemma rho_scenario: "extract_rho_authority (scenario_lead lid cname p1 p2 p3) = 0.65"
  by (simp add: scenario_lead_def new_lead_def extract_rho_authority_def size_weights_def
      get_or_def truthy_def or_empty_def)

lemma f_scenario: "extract_f_fit (scenario_lead lid cname p1 p2 p3) = 0.3"
  by (simp add: scenario_lead_def new_lead_def extract_f_fit_def truthy_def or_empty_def)

lemma lens_saas:
  "lens_weights (new_lens ''enterprise_saas'') =
     \<lparr>w_psi_intent = 0.20, w_rho_authority = 0.35, w_q_urgency = 0.20, w_f_fit = 0.25\<rparr>"
  "calibration (new_lens ''enterprise_saas'') =
     Some \<lparr>weights = \<lparr>w_psi_intent = 0.20, w_rho_authority = 0.35, w_q_urgency = 0.20,
                       w_f_fit = 0.25\<rparr>, authority_threshold = 0.6\<rparr>"
  by (simp_all add: new_lens_def LENS_CALIBRATIONS_def)

text \<open>
  With intent 0.7, authority 0.65 and fit 0.3 the coherence is \<open>2.043 + 0.8 q\<close>; the
  urgency never exceeds one half, so the coherence stays below the 2.5 that the hot tier
  needs.
\<close>

lemma tier_warm_aux:
  assumes "0 \<le> q" "q \<le> 1 / 2"
  shows "determine_tier (new_lens ''enterprise_saas'')
           (calculate_coherence (new_lens ''enterprise_saas'') 0.7 0.65 q 0.3) 0.7 0.65 q 0.3
         = ''warm''"
  using assms by (simp add: determine_tier_def calculate_coherence_def lens_saas)

lemma scenario_tier:
  "qualification_tier (perceive (new_lens ''enterprise_saas'') (scenario_lead lid cname p1 p2 p3))
     = ''warm''"
  unfolding perceive_tier psi_scenario rho_scenario f_scenario
  by (rule tier_warm_aux [OF bio_nonneg bio_le_half])

lemma authority_signal:
  "0.6 \<le> rho \<Longrightarrow> ''Decision-making authority'' \<in> set (fst (detect_signals lead psi rho q f))"
  by (simp add: detect_signals_def append_if_def Let_def)

lemma scenario_positive:
  "''Decision-making authority'' \<in>
     set (positive_signals (perceive self (scenario_lead lid cname p1 p2 p3)))"
  unfolding perceive_positive rho_scenario
  by (rule authority_signal) simp

text \<open>
  Claim C2, as stated, fails: the referral scenario under the \<^verbatim>\<open>enterprise_saas\<close>
  calibration is not perceived as \<^verbatim>\<open>hot\<close>.
\<close>

theorem C2_scenario_counterexample:
  "\<not> (qualification_tier (perceive (new_lens ''enterprise_saas'') referral_lead) = ''hot''
      \<and> ''Decision-making authority''
          \<in> set (positive_signals (perceive (new_lens ''enterprise_saas'') referral_lead)))"
  by (simp add: referral_lead_def scenario_tier)

text \<open>
  Claim C2, amended. For the referral scenario (source \<^verbatim>\<open>referral\<close>, any three pain points,
  decision maker, budget mentioned, timeline \<^verbatim>\<open>this_quarter\<close>, two meeting requests, every
  other optional field absent), perceive under the \<^verbatim>\<open>enterprise_saas\<close> calibration yields
  the tier \<^verbatim>\<open>warm\<close>, and the positive signals contain \<^verbatim>\<open>Decision-making authority\<close>.
\<close>

theorem C2_scenario_warm:
  "qualification_tier (perceive (new_lens ''enterprise_saas'') (scenario_lead lid cname p1 p2 p3))
     = ''warm''
   \<and> ''Decision-making authority''
       \<in> set (positive_signals
                (perceive (new_lens ''enterprise_saas'') (scenario_lead lid cname p1 p2 p3)))"
  using scenario_tier scenario_positive by simp

theorem C2_scenario_warm_witness:
  "qualification_tier (perceive (new_lens ''enterprise_saas'') referral_lead) = ''warm''
   \<and> ''Decision-making authority''
       \<in> set (positive_signals (perceive (new_lens ''enterprise_saas'') referral_lead))"
  unfolding referral_lead_def by (rule C2_scenario_warm)

subsection \<open>Range of the coherence score\<close>

lemma get_or_source_nonneg: "0 \<le> get_or (source_weights s) 0.05"
  by (simp add: get_or_def source_weights_def)

lemma get_or_size_nonneg: "0 \<le> get_or (size_weights s) 0.1"
  by (simp add: get_or_def size_weights_def)

lemma psi_bounds: "0 \<le> extract_psi_intent lead \<and> extract_psi_intent lead \<le> 1"
  using get_or_source_nonneg [of "source lead"]
  by (simp add: extract_psi_intent_def Let_def min_def)

lemma rho_bounds: "0 \<le> extract_rho_authority lead \<and> extract_rho_authority lead \<le> 1"
  using get_or_size_nonneg [of "or_empty (company_size lead)"]
  by (simp add: extract_rho_authority_def Let_def min_def)

lemma f_bounds: "0 \<le> extract_f_fit lead \<and> extract_f_fit lead \<le> 1"
  by (simp add: extract_f_fit_def Let_def min_def)

lemma weights_nonneg:
  "0 \<le> w_psi_intent (lens_weights (new_lens name))"
  "0 \<le> w_rho_authority (lens_weights (new_lens name))"
  "0 \<le> w_q_urgency (lens_weights (new_lens name))"
  "0 \<le> w_f_fit (lens_weights (new_lens name))"
  by (simp_all add: new_lens_def LENS_CALIBRATIONS_def DEFAULT_WEIGHTS_def)

lemma coherence_bounds:
  assumes "0 \<le> psi" "0 \<le> rho" "0 \<le> q" "0 \<le> f"
  shows "0 \<le> calculate_coherence (new_lens name) psi rho q f
         \<and> calculate_coherence (new_lens name) psi rho q f \<le> 4"
proof -
  have "0 \<le> (w_psi_intent (lens_weights (new_lens name)) * psi +
              w_rho_authority (lens_weights (new_lens name)) * rho +
              w_q_urgency (lens_weights (new_lens name)) * q +
              w_f_fit (lens_weights (new_lens name)) * f +
              0.15 * rho * psi) * 4"
    using assms weights_nonneg [of name]
    by (intro mult_nonneg_nonneg add_nonneg_nonneg) simp_all
  then show ?thesis
    unfolding calculate_coherence_def Let_def by (simp only: min_def) simp
qed

text \<open>
  Claim C3. For every lead and every lens name (one of the named calibrations, or any other
  name, which selects the default weights), the coherence score of the reading lies between
  0 and 4.
\<close>

theorem C3_coherence_range:
  "0 \<le> coherence_score (perceive (new_lens name) lead) \<and>
   coherence_score (perceive (new_lens name) lead) \<le> 4"
  unfolding perceive_coherence
  using psi_bounds rho_bounds f_bounds bio_nonneg by (intro coherence_bounds) simp_all

theorem C3_coherence_range_witness:
  "0 \<le> coherence_score (perceive (new_lens ''no_such_lens'') referral_lead) \<and>
   coherence_score (perceive (new_lens ''no_such_lens'') referral_lead) \<le> 4"
  by (rule C3_coherence_range)

section \<open>Properties of the qualifier\<close>

subsection \<open>Every qualification returns a result\<close>

lemma tier_cases:
  "determine_tier self c psi rho q f \<in> {''hot'', ''warm'', ''cold'', ''disqualified''}"
  by (simp add: determine_tier_def Let_def)

lemma perceive_tier_cases:
  "qualification_tier (perceive self lead) \<in> {''hot'', ''warm'', ''cold'', ''disqualified''}"
  unfolding perceive_tier by (rule tier_cases)

lemma update_stats_ok:
  "res_qualification_tier r \<in> {''hot'', ''warm'', ''cold'', ''disqualified''}
   \<Longrightarrow> fst (update_stats st r) = None"
  by (auto simp add: update_stats_def Let_def)

lemma qualify_Inr:
  "\<exists>r self'. qualify self lead = (Inr r, self')
     \<and> res_qualification_tier r = qualification_tier (perceive (lens self) lead)
     \<and> next_stage r = determine_routing (perceive (lens self) lead)
     \<and> priority_score r = calculate_priority (perceive (lens self) lead)
     \<and> lens self' = lens self"
proof -
  let ?c = "perceive (lens self) lead"
  let ?r = "\<lparr>res_lead_id = lead_id lead, res_company_name = company_name lead,
             coherence = ?c, res_qualification_tier = qualification_tier ?c,
             res_qualified = (qualification_tier ?c \<noteq> ''disqualified''),
             next_stage = determine_routing ?c, priority_score = calculate_priority ?c,
             qualified_by = ''rose_glass_auto'', res_lens_used = q_lens_name self,
             trial_branch = Some (q_trial_branch self)\<rparr>"
  have "fst (update_stats (stats self) ?r) = None"
    using perceive_tier_cases [of "lens self" lead] by (intro update_stats_ok) simp
  then obtain st where "update_stats (stats self) ?r = (None, st)"
    by (cases "update_stats (stats self) ?r") simp
  then show ?thesis
    by (simp add: qualify_def Let_def)
qed

lemma routing_cases:
  "determine_routing c =
     (if qualification_tier c = ''hot'' then ''active_sales''
      else if qualification_tier c = ''warm'' then ''nurture_warm''
      else if qualification_tier c = ''cold'' then ''nurture_cold''
      else ''graveyard'')"
  by (simp add: determine_routing_def Let_def)

subsection \<open>The demonstration leads\<close>

lemma demo_tiers:
  "qualification_tier (perceive (new_lens ''enterprise_saas'') hot001) = ''hot''"
  "qualification_tier (perceive (new_lens ''enterprise_saas'') warm001) = ''warm''"
  "qualification_tier (perceive (new_lens ''enterprise_saas'') cold001) = ''cold''"
  "qualification_tier (perceive (new_lens ''enterprise_saas'') disq001) = ''disqualified''"
  by code_simp+

lemma demo_lens: "lens (new_qualifier ''enterprise_saas'' None) = new_lens ''enterprise_saas''"
  by (simp add: new_qualifier_def)

lemma demo_results:
  "res_qualification_tier (projr (fst (qualify (new_qualifier ''enterprise_saas'' None) hot001)))
     = ''hot''"
  "res_qualification_tier (projr (fst (qualify (new_qualifier ''enterprise_saas'' None) warm001)))
     = ''warm''"
  "res_qualification_tier (projr (fst (qualify (new_qualifier ''enterprise_saas'' None) cold001)))
     = ''cold''"
  "res_qualification_tier (projr (fst (qualify (new_qualifier ''enterprise_saas'' None) disq001)))
     = ''disqualified''"
  using qualify_Inr [of "new_qualifier ''enterprise_saas'' None" hot001]
    qualify_Inr [of "new_qualifier ''enterprise_saas'' None" warm001]
    qualify_Inr [of "new_qualifier ''enterprise_saas'' None" cold001]
    qualify_Inr [of "new_qualifier ''enterprise_saas'' None" disq001]
  by (auto simp: demo_lens demo_tiers)

lemma demo_stage_hot:
  "next_stage (projr (fst (qualify (new_qualifier ''enterprise_saas'' None) hot001)))
     = ''active_sales''"
  using qualify_Inr [of "new_qualifier ''enterprise_saas'' None" hot001]
  by (auto simp: demo_lens demo_tiers routing_cases)

subsection \<open>Routing\<close>

text \<open>
  Claim C7, as stated, fails: the hot lead of the demonstration is routed to the stage
  \<^verbatim>\<open>active_sales\<close>, not to a stage named \<^verbatim>\<open>active\<close>.
\<close>

theorem C7_routing_counterexample:
  "\<not> (res_qualification_tier (projr (fst (qualify (new_qualifier ''enterprise_saas'' None) hot001)))
        = ''hot''
      \<longrightarrow> next_stage (projr (fst (qualify (new_qualifier ''enterprise_saas'' None) hot001)))
        = ''active'')"
  by (simp add: demo_results demo_stage_hot)

text \<open>
  Claim C7, amended. Every qualification returns a result whose tier is one of the four
  tiers and whose routing stage is determined by the tier: \<^verbatim>\<open>hot\<close> maps to
  \<^verbatim>\<open>active_sales\<close>, \<^verbatim>\<open>warm\<close> to \<^verbatim>\<open>nurture_warm\<close>, \<^verbatim>\<open>cold\<close> to \<^verbatim>\<open>nurture_cold\<close> and
  \<^verbatim>\<open>disqualified\<close> to \<^verbatim>\<open>graveyard\<close>.
\<close>

theorem C7_routing:
  "\<exists>r self'. qualify self lead = (Inr r, self')
     \<and> res_qualification_tier r \<in> {''hot'', ''warm'', ''cold'', ''disqualified''}
     \<and> (res_qualification_tier r = ''hot'' \<longrightarrow> next_stage r = ''active_sales'')
     \<and> (res_qualification_tier r = ''warm'' \<longrightarrow> next_stage r = ''nurture_warm'')
     \<and> (res_qualification_tier r = ''cold'' \<longrightarrow> next_stage r = ''nurture_cold'')
     \<and> (res_qualification_tier r = ''disqualified'' \<longrightarrow> next_stage r = ''graveyard'')"
proof -
  from qualify_Inr [of self lead] obtain r self' where
    q: "qualify self lead = (Inr r, self')"
    and t: "res_qualification_tier r = qualification_tier (perceive (lens self) lead)"
    and n: "next_stage r = determine_routing (perceive (lens self) lead)"
    by blast
  have "res_qualification_tier r \<in> {''hot'', ''warm'', ''cold'', ''disqualified''}"
    unfolding t by (rule perceive_tier_cases)
  moreover have "next_stage r =
     (if res_qualification_tier r = ''hot'' then ''active_sales''
      else if res_qualification_tier r = ''warm'' then ''nurture_warm''
      else if res_qualification_tier r = ''cold'' then ''nurture_cold''
      else ''graveyard'')"
    unfolding n t by (rule routing_cases)
  ultimately show ?thesis using q by auto
qed

theorem C7_routing_witness:
  "next_stage (projr (fst (qualify (new_qualifier ''enterprise_saas'' None) hot001))) = ''active_sales''
   \<and> next_stage (projr (fst (qualify (new_qualifier ''enterprise_saas'' None) warm001))) = ''nurture_warm''
   \<and> next_stage (projr (fst (qualify (new_qualifier ''enterprise_saas'' None) cold001))) = ''nurture_cold''
   \<and> next_stage (projr (fst (qualify (new_qualifier ''enterprise_saas'' None) disq001))) = ''graveyard''"
proof -
  let ?q = "new_qualifier ''enterprise_saas'' None"
  from C7_routing [of ?q hot001] obtain r1 s1 where
    "qualify ?q hot001 = (Inr r1, s1)"
    "res_qualification_tier r1 = ''hot'' \<longrightarrow> next_stage r1 = ''active_sales''" by blast
  with demo_results(1) have 1: "next_stage (projr (fst (qualify ?q hot001))) = ''active_sales''"
    by simp
  from C7_routing [of ?q warm001] obtain r2 s2 where
    "qualify ?q warm001 = (Inr r2, s2)"
    "res_qualification_tier r2 = ''warm'' \<longrightarrow> next_stage r2 = ''nurture_warm''" by blast
  with demo_results(2) have 2: "next_stage (projr (fst (qualify ?q warm001))) = ''nurture_warm''"
    by simp
  from C7_routing [of ?q cold001] obtain r3 s3 where
    "qualify ?q cold001 = (Inr r3, s3)"
    "res_qualification_tier r3 = ''cold'' \<longrightarrow> next_stage r3 = ''nurture_cold''" by blast
  with demo_results(3) have 3: "next_stage (projr (fst (qualify ?q cold001))) = ''nurture_cold''"
    by simp
  from C7_routing [of ?q disq001] obtain r4 s4 where
    "qualify ?q disq001 = (Inr r4, s4)"
    "res_qualification_tier r4 = ''disqualified'' \<longrightarrow> next_stage r4 = ''graveyard''" by blast
  with demo_results(4) have 4: "next_stage (projr (fst (qualify ?q disq001))) = ''graveyard''"
    by simp
  from 1 2 3 4 show ?thesis by simp
qed

subsection \<open>Priority\<close>

lemma priority_hot:
  assumes "qualification_tier c = ''hot''" "0 \<le> q_urgency c" "0 \<le> rho_authority c"
  shows "calculate_priority c = 1"
  using assms by (simp add: calculate_priority_def base_priority_def get_or_def Let_def)

lemma priority_other:
  assumes "qualification_tier c \<noteq> ''hot''" "q_urgency c \<le> 1" "rho_authority c \<le> 1"
  shows "calculate_priority c \<le> 0.95"
  using assms by (simp add: calculate_priority_def base_priority_def get_or_def Let_def min_def)

lemma perceive_q_bounds:
  "0 \<le> q_urgency (perceive self lead) \<and> q_urgency (perceive self lead) \<le> 1"
  using bio_nonneg [of "extract_q_urgency lead"] bio_le_half [of "extract_q_urgency lead"]
  by (simp add: perceive_dims)

lemma perceive_rho_bounds:
  "0 \<le> rho_authority (perceive self lead) \<and> rho_authority (perceive self lead) \<le> 1"
  using rho_bounds [of lead] by (simp add: perceive_dims)

lemma qualify_priority:
  assumes "qualify self lead = (Inr r, self')"
  shows "(res_qualification_tier r = ''hot'' \<longrightarrow> priority_score r = 1) \<and>
         (res_qualification_tier r \<noteq> ''hot'' \<longrightarrow> priority_score r \<le> 0.95)"
proof -
  let ?c = "perceive (lens self) lead"
  from qualify_Inr [of self lead] assms
  have r: "res_qualification_tier r = qualification_tier ?c"
          "priority_score r = calculate_priority ?c"
    by auto
  show ?thesis
    unfolding r
    using priority_hot [of ?c] priority_other [of ?c]
      perceive_q_bounds [of "lens self" lead] perceive_rho_bounds [of "lens self" lead]
    by blast
qed

text \<open>A property of every single result holds for all results that the loop collects.\<close>

lemma qualify_all_invariant:
  assumes step: "\<And>self lead r self'. qualify self lead = (Inr r, self') \<Longrightarrow> P r"
    and acc: "\<forall>r \<in> set acc. P r"
    and run: "qualify_all self leads acc = (rs, self')"
  shows "\<forall>r \<in> set rs. P r"
  using acc run
proof (induction leads arbitrary: self acc)
  case Nil
  then show ?case by simp
next
  case (Cons lead leads)
  obtain res s1 where q: "qualify self lead = (res, s1)" by (cases "qualify self lead")
  show ?case
  proof (cases res)
    case (Inl e)
    with q Cons.prems(2) have "qualify_all s1 leads acc = (rs, self')" by simp
    with Cons.IH Cons.prems(1) show ?thesis by blast
  next
    case (Inr r)
    with q Cons.prems(2) have run: "qualify_all s1 leads (acc @ [r]) = (rs, self')" by simp
    from q Inr have "P r" using step by blast
    with Cons.prems(1) have "\<forall>x \<in> set (acc @ [r]). P x" by simp
    with Cons.IH run show ?thesis by blast
  qed
qed

lemma sort_reverse_set: "set (sort_reverse f xs) = set xs"
  by (simp add: sort_reverse_def)

lemma sort_reverse_sorted: "sorted_wrt (\<lambda>x y. f x \<ge> f y) (sort_reverse f xs)"
proof -
  have "sorted (map f (sort_key f (rev xs)))" by simp
  then have "sorted_wrt (\<lambda>x y. f x \<le> f y) (sort_key f (rev xs))"
    by (simp add: sorted_map)
  then show ?thesis
    by (simp add: sort_reverse_def sorted_wrt_rev)
qed

lemma hot_first:
  assumes good: "\<forall>r \<in> set rs. (res_qualification_tier r = ''hot'' \<longrightarrow> priority_score r = 1) \<and>
         (res_qualification_tier r \<noteq> ''hot'' \<longrightarrow> priority_score r \<le> 0.95)"
    and srt: "sorted_wrt (\<lambda>x y. priority_score x \<ge> priority_score y) rs"
    and ij: "i < length rs" "j < length rs"
    and tiers: "res_qualification_tier (rs ! i) = ''hot''" "res_qualification_tier (rs ! j) \<noteq> ''hot''"
  shows "i < j"
proof (rule ccontr)
  assume "\<not> i < j"
  moreover from tiers have "i \<noteq> j" by auto
  ultimately have "j < i" by simp
  with srt ij have "priority_score (rs ! j) \<ge> priority_score (rs ! i)"
    by (simp add: sorted_wrt_iff_nth_less)
  moreover from good ij tiers have "priority_score (rs ! i) = 1" "priority_score (rs ! j) \<le> 0.95"
    by auto
  ultimately show False by simp
qed

text \<open>
  Claim C10. Every qualification returns a result; a result of tier \<^verbatim>\<open>hot\<close> has priority
  exactly 1, a result of tier \<^verbatim>\<open>warm\<close>, \<^verbatim>\<open>cold\<close> or \<^verbatim>\<open>disqualified\<close> has priority at most
  0.95. The list that a batch qualification returns is in non-increasing order of priority,
  and every hot result in it stands before every result that is not hot.
\<close>

theorem C10_priority_order:
  "(\<exists>r self'. qualify self lead = (Inr r, self')
      \<and> (res_qualification_tier r = ''hot'' \<longrightarrow> priority_score r = 1)
      \<and> (res_qualification_tier r \<in> {''warm'', ''cold'', ''disqualified''}
           \<longrightarrow> priority_score r \<le> 0.95))
   \<and> (qualify_batch self leads = (Inr rs, self'') \<longrightarrow>
        sorted_wrt (\<lambda>x y. priority_score x \<ge> priority_score y) rs
        \<and> (\<forall>i j. i < length rs \<and> j < length rs
               \<and> res_qualification_tier (rs ! i) = ''hot''
               \<and> res_qualification_tier (rs ! j) \<noteq> ''hot'' \<longrightarrow> i < j))"
proof (intro conjI impI)
  from qualify_Inr [of self lead] obtain r self' where q: "qualify self lead = (Inr r, self')"
    by blast
  from qualify_priority [OF q] q
  show "\<exists>r self'. qualify self lead = (Inr r, self')
      \<and> (res_qualification_tier r = ''hot'' \<longrightarrow> priority_score r = 1)
      \<and> (res_qualification_tier r \<in> {''warm'', ''cold'', ''disqualified''}
           \<longrightarrow> priority_score r \<le> 0.95)"
    by (intro exI [of _ r] exI [of _ self']) auto
next
  assume b: "qualify_batch self leads = (Inr rs, self'')"
  obtain res s1 where qa: "qualify_all self leads [] = (res, s1)"
    by (cases "qualify_all self leads []")
  with b have rs: "rs = sort_reverse priority_score res"
    by (simp add: qualify_batch_def Let_def split: if_splits)
  show srt: "sorted_wrt (\<lambda>x y. priority_score x \<ge> priority_score y) rs"
    unfolding rs by (rule sort_reverse_sorted)
  have "\<forall>r \<in> set res. (res_qualification_tier r = ''hot'' \<longrightarrow> priority_score r = 1) \<and>
         (res_qualification_tier r \<noteq> ''hot'' \<longrightarrow> priority_score r \<le> 0.95)"
    by (rule qualify_all_invariant [OF qualify_priority _ qa]) simp_all
  then have g: "\<forall>r \<in> set rs. (res_qualification_tier r = ''hot'' \<longrightarrow> priority_score r = 1) \<and>
         (res_qualification_tier r \<noteq> ''hot'' \<longrightarrow> priority_score r \<le> 0.95)"
    by (simp add: rs sort_reverse_set)
  show "\<forall>i j. i < length rs \<and> j < length rs
               \<and> res_qualification_tier (rs ! i) = ''hot''
               \<and> res_qualification_tier (rs ! j) \<noteq> ''hot'' \<longrightarrow> i < j"
    using hot_first [OF g srt] by blast
qed


theorem C10_priority_order_witness:
  "length (projr (fst (qualify_batch (new_qualifier ''enterprise_saas'' None) [warm001, hot001]))) = 2
   \<and> res_qualification_tier
        (projr (fst (qualify_batch (new_qualifier ''enterprise_saas'' None) [warm001, hot001])) ! 0)
       = ''hot''
   \<and> priority_score
        (projr (fst (qualify_batch (new_qualifier ''enterprise_saas'' None) [warm001, hot001])) ! 0)
       = 1
   \<and> res_qualification_tier
        (projr (fst (qualify_batch (new_qualifier ''enterprise_saas'' None) [warm001, hot001])) ! 1)
       = ''warm''
   \<and> priority_score
        (projr (fst (qualify_batch (new_qualifier ''enterprise_saas'' None) [warm001, hot001])) ! 1)
       \<le> 0.95"
proof -
  let ?q = "new_qualifier ''enterprise_saas'' None"
  from qualify_Inr [of ?q warm001] obtain rw q1 where
    w: "qualify ?q warm001 = (Inr rw, q1)" and tw: "res_qualification_tier rw = ''warm''"
    and l1: "lens q1 = new_lens ''enterprise_saas''"
    by (auto simp: demo_lens demo_tiers)
  from qualify_Inr [of q1 hot001] obtain rh q2 where
    h: "qualify q1 hot001 = (Inr rh, q2)" and th: "res_qualification_tier rh = ''hot''"
    by (auto simp: l1 demo_tiers)
  from C10_priority_order [of ?q warm001] w tw have pw: "priority_score rw \<le> 0.95" by auto
  from C10_priority_order [of q1 hot001] h th have ph: "priority_score rh = 1" by auto
  from w h have "qualify_all ?q [warm001, hot001] [] = ([rw, rh], q2)" by simp
  moreover from pw ph have "sort_reverse priority_score [rw, rh] = [rh, rw]"
    by (simp add: sort_reverse_def)
  ultimately have b: "qualify_batch ?q [warm001, hot001] = (Inr [rh, rw], q2)"
    by (simp add: qualify_batch_def)
  from C10_priority_order [of ?q warm001 "[warm001, hot001]" "[rh, rw]" q2] b
  have "sorted_wrt (\<lambda>x y. priority_score x \<ge> priority_score y) [rh, rw]" by blast
  with b tw th pw ph show ?thesis by simp
qed

section \<open>Properties of the trial manager\<close>

subsection \<open>Derived metrics of a branch\<close>

lemma rates_total:
  "\<exists>qr cr av ro. qualification_rate b = Inr qr \<and> conversion_rate b = Inr cr
     \<and> avg_deal_value b = Inr av \<and> roi b = Inr ro
     \<and> (leads_qualified b = 0 \<longrightarrow> qr = 0)
     \<and> (outcomes_won b + outcomes_lost b = 0 \<longrightarrow> cr = 0)
     \<and> (outcomes_won b = 0 \<longrightarrow> av = 0)
     \<and> (total_cost b = 0 \<longrightarrow> ro = 0)"
  by (simp add: qualification_rate_def conversion_rate_def avg_deal_value_def roi_def
      truediv_def Let_def)

lemma qualification_rate_val:
  "qualification_rate b =
     Inr (if leads_qualified b = 0 then 0
          else real_of_int (leads_qualified b - leads_disqualified b) / real_of_int (leads_qualified b))"
  by (simp add: qualification_rate_def truediv_def Let_def)

lemma conversion_rate_val:
  "conversion_rate b =
     Inr (if outcomes_won b + outcomes_lost b = 0 then 0
          else real_of_int (outcomes_won b) / real_of_int (outcomes_won b + outcomes_lost b))"
  by (simp add: conversion_rate_def truediv_def Let_def)

lemma avg_deal_value_val:
  "avg_deal_value b =
     Inr (if outcomes_won b = 0 then 0 else total_revenue b / real_of_int (outcomes_won b))"
  by (simp add: avg_deal_value_def truediv_def)

lemma fitness_score_val:
  "fitness_score b =
     Inr (projr (qualification_rate b) * 0.3 + projr (conversion_rate b) * 0.5
          + min (projr (avg_deal_value b) / 100000) 1 * 0.2)"
  by (simp add: fitness_score_def and_then_def truediv_def Let_def
      qualification_rate_val conversion_rate_val avg_deal_value_val)

lemma qualification_rate_range:
  assumes "0 \<le> leads_disqualified b" "leads_disqualified b \<le> leads_qualified b"
  shows "0 \<le> projr (qualification_rate b) \<and> projr (qualification_rate b) \<le> 1"
  using assms by (simp add: qualification_rate_val)

lemma conversion_rate_range:
  assumes "0 \<le> outcomes_won b" "0 \<le> outcomes_lost b"
  shows "0 \<le> projr (conversion_rate b) \<and> projr (conversion_rate b) \<le> 1"
  using assms by (simp add: conversion_rate_val)

lemma avg_deal_value_nonneg:
  assumes "0 \<le> outcomes_won b" "0 \<le> total_revenue b"
  shows "0 \<le> projr (avg_deal_value b)"
  using assms by (simp add: avg_deal_value_val)

lemma fitness_range:
  assumes "0 \<le> leads_disqualified b" "leads_disqualified b \<le> leads_qualified b"
    "0 \<le> outcomes_won b" "0 \<le> outcomes_lost b" "0 \<le> total_revenue b"
  shows "\<exists>fs. fitness_score b = Inr fs \<and> 0 \<le> fs \<and> fs \<le> 1"
proof -
  let ?qr = "projr (qualification_rate b)" and ?cr = "projr (conversion_rate b)"
  let ?w = "min (projr (avg_deal_value b) / 100000) 1"
  have "0 \<le> ?qr" "?qr \<le> 1" using qualification_rate_range assms by blast+
  moreover have "0 \<le> ?cr" "?cr \<le> 1" using conversion_rate_range assms by blast+
  moreover have "0 \<le> ?w" "?w \<le> 1" using avg_deal_value_nonneg [of b] assms by simp_all
  ultimately have "0 \<le> ?qr * 0.3 + ?cr * 0.5 + ?w * 0.2" "?qr * 0.3 + ?cr * 0.5 + ?w * 0.2 \<le> 1"
    by simp_all
  then show ?thesis by (simp add: fitness_score_val)
qed

text \<open>
  Claim C9. The derived properties of a branch never divide by zero: each returns a value,
  and the value is 0 where its denominator is 0. For a branch whose counters are counts
  (none is negative), whose tier counters add up to \<open>leads_qualified\<close>, and whose revenue and
  cost are not negative, the fitness score lies between 0 and 1. The counters are Python
  integers that start at 0 and that the manager only increments (\<open>reachable_counts_ok\<close>
  below), so the theorem states that they are not negative.
\<close>

theorem C9_branch_metrics:
  "(\<exists>qr cr av ro fs. qualification_rate b = Inr qr \<and> conversion_rate b = Inr cr
      \<and> avg_deal_value b = Inr av \<and> roi b = Inr ro \<and> fitness_score b = Inr fs
      \<and> (leads_qualified b = 0 \<longrightarrow> qr = 0)
      \<and> (outcomes_won b + outcomes_lost b = 0 \<longrightarrow> cr = 0)
      \<and> (outcomes_won b = 0 \<longrightarrow> av = 0)
      \<and> (total_cost b = 0 \<longrightarrow> ro = 0))
   \<and> (0 \<le> leads_hot b \<and> 0 \<le> leads_warm b \<and> 0 \<le> leads_cold b \<and> 0 \<le> leads_disqualified b
       \<and> leads_hot b + leads_warm b + leads_cold b + leads_disqualified b = leads_qualified b
       \<and> 0 \<le> outcomes_won b \<and> 0 \<le> outcomes_lost b
       \<and> 0 \<le> total_revenue b \<and> 0 \<le> total_cost b
       \<longrightarrow> (\<exists>fs. fitness_score b = Inr fs \<and> 0 \<le> fs \<and> fs \<le> 1))"
proof (intro conjI impI)
  from rates_total [of b] fitness_score_val [of b]
  show "\<exists>qr cr av ro fs. qualification_rate b = Inr qr \<and> conversion_rate b = Inr cr
      \<and> avg_deal_value b = Inr av \<and> roi b = Inr ro \<and> fitness_score b = Inr fs
      \<and> (leads_qualified b = 0 \<longrightarrow> qr = 0)
      \<and> (outcomes_won b + outcomes_lost b = 0 \<longrightarrow> cr = 0)
      \<and> (outcomes_won b = 0 \<longrightarrow> av = 0)
      \<and> (total_cost b = 0 \<longrightarrow> ro = 0)"
    by blast
next
  assume a: "0 \<le> leads_hot b \<and> 0 \<le> leads_warm b \<and> 0 \<le> leads_cold b \<and> 0 \<le> leads_disqualified b
       \<and> leads_hot b + leads_warm b + leads_cold b + leads_disqualified b = leads_qualified b
       \<and> 0 \<le> outcomes_won b \<and> 0 \<le> outcomes_lost b
       \<and> 0 \<le> total_revenue b \<and> 0 \<le> total_cost b"
  then have "leads_disqualified b \<le> leads_qualified b" by linarith
  with a show "\<exists>fs. fitness_score b = Inr fs \<and> 0 \<le> fs \<and> fs \<le> 1"
    by (intro fitness_range) simp_all
qed

lemma sample_fitness: "fitness_score sample_branch = Inr (23 / 40)"
  by (simp add: fitness_score_val qualification_rate_val conversion_rate_val avg_deal_value_val
      sample_branch_def new_branch_def)

theorem C9_branch_metrics_witness:
  "fitness_score sample_branch = Inr (23 / 40) \<and>
   (\<exists>fs. fitness_score sample_branch = Inr fs \<and> 0 \<le> fs \<and> fs \<le> 1)"
  using C9_branch_metrics [of sample_branch] sample_fitness
  by (simp add: sample_branch_def new_branch_def)

lemma ready_iff:
  "is_ready_for_evaluation t \<longleftrightarrow>
     min_sample_size t \<le> leads_qualified (classic_branch t) \<and>
     min_sample_size t \<le> leads_qualified (experimental_branch t)"
  by (simp add: is_ready_for_evaluation_def)

subsection \<open>The evaluation gate\<close>

text \<open>
  Claim C5. A trial is ready for evaluation exactly when both branches have at least
  \<open>min_sample_size\<close> qualified leads. Evaluating a trial that is not ready returns no result
  and leaves the manager as it was, so no winner and no confidence is recorded on the trial.
\<close>

theorem C5_evaluation_gate:
  "(is_ready_for_evaluation t \<longleftrightarrow>
      leads_qualified (classic_branch t) \<ge> min_sample_size t \<and>
      leads_qualified (experimental_branch t) \<ge> min_sample_size t)
   \<and> (get_trial self tid = Some t \<and> \<not> is_ready_for_evaluation t \<longrightarrow>
        evaluate_trial self tid = Inr (None, self))"
  by (simp add: is_ready_for_evaluation_def evaluate_trial_def)

lemma unready_trial:
  "get_trial (run_calls (new_manager None) unready_calls) demo_id =
     Some \<lparr>trial_id = demo_id, trial_name = ''Authority-Weighted Lens'',
           trial_description = ''Test increasing the authority weight'',
           classic_branch = (new_branch ''classic'' ''Current standard approach'' default_standard)
              \<lparr>leads_qualified := 2, leads_hot := 1, leads_warm := 1\<rparr>,
           experimental_branch =
             (new_branch (''experimental_'' @ demo_id) ''Test increasing the authority weight''
                demo_config)\<lparr>leads_qualified := 1, leads_hot := 1\<rparr>,
           traffic_split = 0.5, min_sample_size = 2, confidence_threshold = 0.95,
           status = RUNNING, winner = None, trial_confidence = None\<rparr>"
  by code_simp


theorem C5_evaluation_gate_witness:
  "\<not> is_ready_for_evaluation (the (get_trial (run_calls (new_manager None) unready_calls) demo_id))
   \<and> evaluate_trial (run_calls (new_manager None) unready_calls) demo_id
       = Inr (None, run_calls (new_manager None) unready_calls)"
proof -
  let ?m = "run_calls (new_manager None) unready_calls"
  let ?t = "the (get_trial ?m demo_id)"
  have g: "get_trial ?m demo_id = Some ?t" by (simp add: unready_trial)
  have n: "\<not> is_ready_for_evaluation ?t"
    by (simp add: unready_trial is_ready_for_evaluation_def new_branch_def)
  from C5_evaluation_gate [of ?t ?m demo_id] g n show ?thesis by blast
qed

subsection \<open>Confidence of an evaluation\<close>

lemma confidence_val:
  assumes "trial_calculate_confidence t = Inr c"
  shows "c = (min (real_of_int (leads_qualified (classic_branch t)
                                + leads_qualified (experimental_branch t))
                   / real_of_int (4 * min_sample_size t)) 1
              + min (\<bar>projr (fitness_score (classic_branch t))
                      - projr (fitness_score (experimental_branch t))\<bar> / 0.2) 1) / 2"
  using assms
  by (auto simp: trial_calculate_confidence_def and_then_def truediv_def fitness_score_val
      Let_def mult.commute split: if_splits)

lemma evaluate_result:
  assumes "get_trial self tid = Some t" "evaluate_trial self tid = Inr (Some r, self')"
  shows "classic_fitness r = projr (fitness_score (classic_branch t))
       \<and> experimental_fitness r = projr (fitness_score (experimental_branch t))
       \<and> (result_winner r = ''experimental'' \<and> trial_calculate_confidence t = Inr (result_confidence r)
          \<or> result_winner r = ''classic'' \<and> trial_calculate_confidence t = Inr (result_confidence r)
          \<or> result_winner r = ''inconclusive'' \<and> result_confidence r = 0)
       \<and> self' = update_trial self tid
            (\<lambda>t. t\<lparr>winner := Some (result_winner r), trial_confidence := Some (result_confidence r)\<rparr>)"
  using assms
  by (auto simp: evaluate_trial_def and_then_def truediv_def fitness_score_val
      split: if_splits sum.splits)

text \<open>
  Claim C6, amended. A result of an evaluation names the winner \<^verbatim>\<open>classic\<close>,
  \<^verbatim>\<open>experimental\<close> or \<^verbatim>\<open>inconclusive\<close>. For the winners \<^verbatim>\<open>classic\<close> and \<^verbatim>\<open>experimental\<close> its
  confidence is the stated average; for \<^verbatim>\<open>inconclusive\<close> its confidence is 0.
\<close>

theorem C6_confidence:
  "get_trial self tid = Some t \<and> evaluate_trial self tid = Inr (Some r, self') \<longrightarrow>
     result_winner r \<in> {''classic'', ''experimental'', ''inconclusive''}
     \<and> (result_winner r \<in> {''classic'', ''experimental''} \<longrightarrow>
          result_confidence r = stated_confidence t r)
     \<and> (result_winner r = ''inconclusive'' \<longrightarrow> result_confidence r = 0)"
proof (intro impI)
  assume a: "get_trial self tid = Some t \<and> evaluate_trial self tid = Inr (Some r, self')"
  note e = evaluate_result [of self tid t r self']
  from a e have w: "result_winner r \<in> {''classic'', ''experimental'', ''inconclusive''}" by auto
  have c: "result_confidence r = stated_confidence t r"
    if "result_winner r \<in> {''classic'', ''experimental''}"
  proof -
    from that a e have "trial_calculate_confidence t = Inr (result_confidence r)" by auto
    from confidence_val [OF this] a e show ?thesis by (simp add: stated_confidence_def)
  qed
  have z: "result_confidence r = 0" if "result_winner r = ''inconclusive''"
    using that a e by auto
  from w c z show "result_winner r \<in> {''classic'', ''experimental'', ''inconclusive''}
     \<and> (result_winner r \<in> {''classic'', ''experimental''} \<longrightarrow>
          result_confidence r = stated_confidence t r)
     \<and> (result_winner r = ''inconclusive'' \<longrightarrow> result_confidence r = 0)" by blast
qed

lemma tied_trial:
  "get_trial (run_calls (new_manager None) tied_calls) demo_id =
     Some \<lparr>trial_id = demo_id, trial_name = ''Authority-Weighted Lens'',
           trial_description = ''Test increasing the authority weight'',
           classic_branch = (new_branch ''classic'' ''Current standard approach'' default_standard)
              \<lparr>leads_qualified := 2, leads_hot := 1, leads_warm := 1\<rparr>,
           experimental_branch =
             (new_branch (''experimental_'' @ demo_id) ''Test increasing the authority weight''
                demo_config)\<lparr>leads_qualified := 2, leads_hot := 1, leads_warm := 1\<rparr>,
           traffic_split = 0.5, min_sample_size = 2, confidence_threshold = 0.95,
           status = RUNNING, winner = None, trial_confidence = None\<rparr>"
  by code_simp

lemma tied_result:
  "fst (projr (evaluate_trial (run_calls (new_manager None) tied_calls) demo_id)) =
     Some \<lparr>result_trial_id = demo_id, result_winner = ''inconclusive'', result_confidence = 0,
           classic_fitness = 3 / 10, experimental_fitness = 3 / 10, improvement = 0,
           recommendation = ''continue''\<rparr>"
  "isl (evaluate_trial (run_calls (new_manager None) tied_calls) demo_id) = False"
  by code_simp+

lemma experimental_result:
  "fst (projr (evaluate_trial (run_calls (new_manager None) experimental_calls) demo_id)) =
     Some \<lparr>result_trial_id = demo_id, result_winner = ''experimental'', result_confidence = 5 / 8,
           classic_fitness = 3 / 20, experimental_fitness = 3 / 10, improvement = 100,
           recommendation = ''continue''\<rparr>"
  "isl (evaluate_trial (run_calls (new_manager None) experimental_calls) demo_id) = False"
  by code_simp+


text \<open>
  Claim C6, as stated, fails for the winner \<^verbatim>\<open>inconclusive\<close>: with two leads on each branch
  and equal fitness scores the evaluation produces a result of confidence 0, while the
  stated average is one quarter.
\<close>

theorem C6_confidence_counterexample:
  "fst (projr (evaluate_trial (run_calls (new_manager None) tied_calls) demo_id)) \<noteq> None
   \<and> result_confidence
        (the (fst (projr (evaluate_trial (run_calls (new_manager None) tied_calls) demo_id))))
     \<noteq> stated_confidence
        (the (get_trial (run_calls (new_manager None) tied_calls) demo_id))
        (the (fst (projr (evaluate_trial (run_calls (new_manager None) tied_calls) demo_id))))"
  by (simp add: tied_result tied_trial stated_confidence_def new_branch_def)

lemma experimental_trial_found:
  "get_trial (run_calls (new_manager None) experimental_calls) demo_id \<noteq> None"
  by code_simp

theorem C6_confidence_witness:
  "result_winner
     (the (fst (projr (evaluate_trial (run_calls (new_manager None) experimental_calls) demo_id))))
     = ''experimental''
   \<and> result_confidence
     (the (fst (projr (evaluate_trial (run_calls (new_manager None) experimental_calls) demo_id))))
     = stated_confidence
        (the (get_trial (run_calls (new_manager None) experimental_calls) demo_id))
        (the (fst (projr (evaluate_trial (run_calls (new_manager None) experimental_calls) demo_id))))"
proof -
  let ?m = "run_calls (new_manager None) experimental_calls"
  let ?e = "evaluate_trial ?m demo_id"
  let ?r = "the (fst (projr ?e))" and ?t = "the (get_trial ?m demo_id)"
  have g: "get_trial ?m demo_id = Some ?t" using experimental_trial_found by simp
  have "?e = Inr (projr ?e)" using experimental_result(2) by (cases ?e) simp_all
  moreover have "projr ?e = (Some ?r, snd (projr ?e))"
    using experimental_result(1) by (cases "projr ?e") simp
  ultimately have e: "?e = Inr (Some ?r, snd (projr ?e))" by simp
  have w: "result_winner ?r = ''experimental''" by (simp add: experimental_result(1))
  from C6_confidence [of ?m demo_id ?t ?r "snd (projr ?e)"] g e w show ?thesis by simp
qed

subsection \<open>Promotion\<close>

lemma find_append_one:
  "find P (xs @ [y]) =
     (case find P xs of Some x \<Rightarrow> Some x | None \<Rightarrow> if P y then Some y else None)"
  by (induction xs) auto

lemma find_update_first:
  assumes "\<And>x. k (f x) = k x"
  shows "find (\<lambda>t. k t = a) (update_first (\<lambda>t. k t = b) f xs) =
           (if a = b then map_option f (find (\<lambda>t. k t = a) xs) else find (\<lambda>t. k t = a) xs)"
  by (induction xs) (auto simp: assms)

lemma find_list_update:
  assumes "\<And>x. k (f x) = k x" "\<And>x. w (f x) = w x"
  shows "map_option w (find (\<lambda>t. k t = a) (xs[i := f (xs ! i)])) =
         map_option w (find (\<lambda>t. k t = a) xs)"
proof (induction xs arbitrary: i)
  case Nil
  then show ?case by simp
next
  case (Cons x xs)
  then show ?case by (cases i) (auto simp: assms)
qed

lemma get_trial_update:
  assumes "\<And>x. trial_id (f x) = trial_id x"
  shows "get_trial (update_trial s b f) a =
           (if a = b then map_option f (get_trial s a) else get_trial s a)"
  using find_update_first [of trial_id f a b "trials s", OF assms]
  by (simp add: get_trial_def update_trial_def)

lemma on_branch_keeps: "trial_id (on_branch b f t) = trial_id t" "winner (on_branch b f t) = winner t"
  by (simp_all add: on_branch_def)

lemma winner_on_trial:
  assumes "\<And>x. trial_id (f x) = trial_id x" "\<And>x. winner (f x) = winner x"
  shows "map_option winner (get_trial (on_trial i f s) a) = map_option winner (get_trial s a)"
  using find_list_update [of trial_id f winner a "trials s" i, OF assms]
  by (simp add: get_trial_def on_trial_def)

lemma winner_update_trial:
  assumes "\<And>x. trial_id (f x) = trial_id x" "\<And>x. winner (f x) = winner x"
  shows "map_option winner (get_trial (update_trial s b f) a) = map_option winner (get_trial s a)"
  by (simp add: get_trial_update assms option.map_comp comp_def)

lemma winner_create:
  "map_option winner (get_trial (snd (create_trial s n d c sp ms now)) a) =
     (case get_trial s a of Some t \<Rightarrow> Some (winner t)
      | None \<Rightarrow> if ''trial_'' @ now = a then Some None else None)"
  by (simp add: create_trial_def get_trial_def Let_def find_append_one split: option.splits)

lemma evaluate_none:
  "evaluate_trial s a = Inr (None, s') \<Longrightarrow> s' = s"
  by (auto simp: evaluate_trial_def and_then_def split: option.splits if_splits sum.splits)

lemma evaluate_some_found:
  "evaluate_trial s a = Inr (Some r, s') \<Longrightarrow> get_trial s a \<noteq> None"
  by (cases "get_trial s a") (auto simp: evaluate_trial_def)


lemma get_trial_other:
  "get_trial (save_standard s c) a = get_trial s a"
  "get_trial (s\<lparr>standards_history := h\<rparr>) a = get_trial s a"
  by (simp_all add: get_trial_def save_standard_def)

lemma promote_trials:
  "get_trial (snd (promote_experimental s b)) a =
     (if a = b \<and> (\<exists>t. get_trial s b = Some t \<and> winner t = Some ''experimental'')
      then map_option (\<lambda>t. t\<lparr>status := PROMOTED\<rparr>) (get_trial s a) else get_trial s a)"
  by (auto simp: promote_experimental_def Let_def get_trial_update get_trial_other
      split: option.splits)

lemma call_winner:
  assumes "get_trial (call s c) a = Some t'" "winner t' = Some ''experimental''"
  shows "(\<exists>t. get_trial s a = Some t \<and> winner t = Some ''experimental'')
       \<or> (c = EvaluateTrial a \<and>
           (\<exists>r s'. evaluate_trial s a = Inr (Some r, s') \<and> result_winner r = ''experimental''))"
proof -
  have keep: "\<exists>t. get_trial s a = Some t \<and> winner t = Some ''experimental''"
    if "map_option winner (get_trial (call s c) a) = map_option winner (get_trial s a)"
    using that assms by (cases "get_trial s a") auto
  show ?thesis
  proof (cases c)
    case (CreateTrial n d cfg sp ms now)
    with assms winner_create [of s n d cfg sp ms now a] show ?thesis
      by (auto split: option.splits if_splits)
  next
    case (StartTrial i)
    then show ?thesis using keep by (simp add: winner_on_trial start_def)
  next
    case (PauseTrial i)
    then show ?thesis using keep by (simp add: winner_on_trial pause_def)
  next
    case (ResumeTrial i)
    then show ?thesis using keep by (simp add: winner_on_trial resume_def)
  next
    case (RecordQualification b br tier)
    then show ?thesis using keep
      by (simp add: record_qualification_def winner_update_trial on_branch_keeps
          split: option.splits)
  next
    case (RecordOutcome b br ot dv cost)
    then show ?thesis using keep
      by (simp add: record_outcome_def winner_update_trial on_branch_keeps
          split: option.splits)
  next
    case (EvaluateTrial b)
    show ?thesis
    proof (cases "evaluate_trial s b")
      case (Inl e)
      with EvaluateTrial assms show ?thesis by simp
    next
      case (Inr p)
      obtain ro s' where p: "p = (ro, s')" by (cases p)
      show ?thesis
      proof (cases ro)
        case None
        with Inr p have "s' = s" using evaluate_none by blast
        with EvaluateTrial Inr p assms show ?thesis by simp
      next
        case (Some r)
        with Inr p have ev: "evaluate_trial s b = Inr (Some r, s')" by simp
        then obtain t where t: "get_trial s b = Some t" using evaluate_some_found by blast
        from evaluate_result [OF t ev]
        have s': "s' = update_trial s b
            (\<lambda>t. t\<lparr>winner := Some (result_winner r), trial_confidence := Some (result_confidence r)\<rparr>)"
          by blast
        have g: "get_trial s' a =
            (if a = b then map_option
               (\<lambda>t. t\<lparr>winner := Some (result_winner r), trial_confidence := Some (result_confidence r)\<rparr>)
               (get_trial s a) else get_trial s a)"
          unfolding s' by (rule get_trial_update) simp
        from EvaluateTrial ev have "call s c = s'" by simp
        with assms g ev EvaluateTrial show ?thesis by (auto split: if_splits)
      qed
    qed
  next
    case (PromoteExperimental b)
    with assms promote_trials [of s b a] show ?thesis
      by (auto split: if_splits)
  next
    case (ArchiveTrial b)
    then show ?thesis using keep
      by (simp add: archive_trial_def winner_update_trial split: option.splits)
  qed
qed

lemma winner_recorded:
  assumes "get_trial (run_calls (new_manager standard) calls) a = Some t"
    "winner t = Some ''experimental''"
  shows "\<exists>pre post r s'. calls = pre @ EvaluateTrial a # post
           \<and> evaluate_trial (run_calls (new_manager standard) pre) a = Inr (Some r, s')
           \<and> result_winner r = ''experimental''"
  using assms
proof (induction calls arbitrary: t rule: rev_induct)
  case Nil
  then show ?case by (simp add: run_calls_def new_manager_def get_trial_def)
next
  case (snoc c calls)
  let ?s = "run_calls (new_manager standard) calls"
  from snoc.prems have "get_trial (call ?s c) a = Some t" by (simp add: run_calls_def)
  from call_winner [OF this snoc.prems(2)] show ?case
  proof
    assume "\<exists>t. get_trial ?s a = Some t \<and> winner t = Some ''experimental''"
    then obtain pre post r s' where "calls = pre @ EvaluateTrial a # post"
      "evaluate_trial (run_calls (new_manager standard) pre) a = Inr (Some r, s')"
      "result_winner r = ''experimental''"
      using snoc.IH by blast
    then have "calls @ [c] = pre @ EvaluateTrial a # (post @ [c])
       \<and> evaluate_trial (run_calls (new_manager standard) pre) a = Inr (Some r, s')
       \<and> result_winner r = ''experimental''" by simp
    then show ?thesis by blast
  next
    assume "c = EvaluateTrial a \<and>
           (\<exists>r s'. evaluate_trial ?s a = Inr (Some r, s') \<and> result_winner r = ''experimental'')"
    then obtain r s' where "calls @ [c] = calls @ EvaluateTrial a # []
       \<and> evaluate_trial ?s a = Inr (Some r, s') \<and> result_winner r = ''experimental''" by auto
    then show ?thesis by blast
  qed
qed

lemma promote_changes:
  assumes "snd (promote_experimental s a) \<noteq> s"
  shows "\<exists>t. get_trial s a = Some t \<and> winner t = Some ''experimental''"
  using assms by (auto simp: promote_experimental_def split: option.splits if_splits)

text \<open>
  Claim C4. A promotion attempted on a trial whose recorded winner is not \<^verbatim>\<open>experimental\<close>
  returns with the manager unchanged: the status of the trial, the current standard and the
  standards history are as before. A promotion changes the manager only if the recorded
  winner of the trial is \<^verbatim>\<open>experimental\<close>; in a manager reached from a new one by calls of
  its operations, that is the case only if an earlier call of \<^verbatim>\<open>evaluate_trial\<close> for this
  trial returned a result with the winner \<^verbatim>\<open>experimental\<close>.
\<close>

theorem C4_promotion_guard:
  "(get_trial self tid = Some t \<and> winner t \<noteq> Some ''experimental'' \<longrightarrow>
      promote_experimental self tid = (None, self))
   \<and> (snd (promote_experimental self tid) \<noteq> self \<longrightarrow>
        (\<exists>t. get_trial self tid = Some t \<and> winner t = Some ''experimental''))
   \<and> (snd (promote_experimental (run_calls (new_manager standard) calls) tid)
         \<noteq> run_calls (new_manager standard) calls \<longrightarrow>
        (\<exists>pre post r s'. calls = pre @ EvaluateTrial tid # post
           \<and> evaluate_trial (run_calls (new_manager standard) pre) tid = Inr (Some r, s')
           \<and> result_winner r = ''experimental''))"
proof (intro conjI impI)
  assume "get_trial self tid = Some t \<and> winner t \<noteq> Some ''experimental''"
  then show "promote_experimental self tid = (None, self)"
    by (simp add: promote_experimental_def)
next
  assume "snd (promote_experimental self tid) \<noteq> self"
  then show "\<exists>t. get_trial self tid = Some t \<and> winner t = Some ''experimental''"
    by (rule promote_changes)
next
  assume "snd (promote_experimental (run_calls (new_manager standard) calls) tid)
         \<noteq> run_calls (new_manager standard) calls"
  then obtain t where "get_trial (run_calls (new_manager standard) calls) tid = Some t"
    "winner t = Some ''experimental''"
    using promote_changes by blast
  then show "\<exists>pre post r s'. calls = pre @ EvaluateTrial tid # post
           \<and> evaluate_trial (run_calls (new_manager standard) pre) tid = Inr (Some r, s')
           \<and> result_winner r = ''experimental''"
    by (rule winner_recorded)
qed


lemma classic_winner:
  "map_option winner
     (get_trial (run_calls (new_manager None) (classic_calls @ [EvaluateTrial demo_id])) demo_id)
   = Some (Some ''classic'')"
  by code_simp

lemma experimental_promoted:
  "map_option status
     (get_trial (run_calls (new_manager None) (experimental_calls @ [EvaluateTrial demo_id])) demo_id)
   = Some RUNNING"
  "map_option status
     (get_trial (snd (promote_experimental
        (run_calls (new_manager None) (experimental_calls @ [EvaluateTrial demo_id])) demo_id))
        demo_id)
   = Some PROMOTED"
  "current_standard (snd (promote_experimental
        (run_calls (new_manager None) (experimental_calls @ [EvaluateTrial demo_id])) demo_id))
   = Some demo_config"
  by code_simp+

theorem C4_promotion_guard_witness:
  "promote_experimental
       (run_calls (new_manager None) (classic_calls @ [EvaluateTrial demo_id])) demo_id
     = (None, run_calls (new_manager None) (classic_calls @ [EvaluateTrial demo_id]))
   \<and> snd (promote_experimental
       (run_calls (new_manager None) (experimental_calls @ [EvaluateTrial demo_id])) demo_id)
     \<noteq> run_calls (new_manager None) (experimental_calls @ [EvaluateTrial demo_id])
   \<and> (\<exists>pre post r s'.
         experimental_calls @ [EvaluateTrial demo_id] = pre @ EvaluateTrial demo_id # post
         \<and> evaluate_trial (run_calls (new_manager None) pre) demo_id = Inr (Some r, s')
         \<and> result_winner r = ''experimental'')"
proof -
  let ?mc = "run_calls (new_manager None) (classic_calls @ [EvaluateTrial demo_id])"
  let ?me = "run_calls (new_manager None) (experimental_calls @ [EvaluateTrial demo_id])"
  from classic_winner obtain t where t: "get_trial ?mc demo_id = Some t" "winner t = Some ''classic''"
    by auto
  with C4_promotion_guard [of ?mc demo_id t] have 1: "promote_experimental ?mc demo_id = (None, ?mc)"
    by simp
  have 2: "snd (promote_experimental ?me demo_id) \<noteq> ?me"
    using experimental_promoted(1,2) by auto
  with C4_promotion_guard [of ?me demo_id t None "experimental_calls @ [EvaluateTrial demo_id]"]
  have 3: "\<exists>pre post r s'.
         experimental_calls @ [EvaluateTrial demo_id] = pre @ EvaluateTrial demo_id # post
         \<and> evaluate_trial (run_calls (new_manager None) pre) demo_id = Inr (Some r, s')
         \<and> result_winner r = ''experimental''"
    by blast
  from 1 2 3 show ?thesis by blast
qed

subsection \<open>Counters of the branches of a reachable manager\<close>

lemma list_all_update_first:
  assumes "list_all P xs" "\<And>x. P x \<Longrightarrow> P (f x)"
  shows "list_all P (update_first p f xs)"
  using assms(1) by (induction xs) (auto simp: assms(2))

lemma list_all_list_update:
  assumes "list_all P xs" "\<And>x. P x \<Longrightarrow> P (f x)"
  shows "list_all P (xs[i := f (xs ! i)])"
  using assms(1)
proof (induction xs arbitrary: i)
  case Nil
  then show ?case by simp
next
  case (Cons x xs)
  then show ?case by (cases i) (auto simp: assms(2))
qed

lemma counts_ok_steps:
  "counts_ok (new_branch n d c)"
  "counts_ok b \<Longrightarrow> counts_ok (count_qualification tier b)"
  "counts_ok b \<Longrightarrow> counts_ok (count_outcome ot dv cost b)"
  by (auto simp: counts_ok_def new_branch_def count_qualification_def count_outcome_def Let_def)

lemma trial_counts_ok_steps:
  "trial_counts_ok t \<Longrightarrow> trial_counts_ok (start t)"
  "trial_counts_ok t \<Longrightarrow> trial_counts_ok (pause t)"
  "trial_counts_ok t \<Longrightarrow> trial_counts_ok (resume t)"
  "trial_counts_ok t \<Longrightarrow> trial_counts_ok (t\<lparr>status := st\<rparr>)"
  "trial_counts_ok t \<Longrightarrow> trial_counts_ok (t\<lparr>winner := w, trial_confidence := c\<rparr>)"
  "trial_counts_ok t \<Longrightarrow> trial_counts_ok (on_branch br (count_qualification tier) t)"
  "trial_counts_ok t \<Longrightarrow> trial_counts_ok (on_branch br (count_outcome ot dv cost) t)"
  by (auto simp: trial_counts_ok_def start_def pause_def resume_def on_branch_def counts_ok_steps)

lemma evaluate_trials:
  assumes "evaluate_trial s a = Inr (ro, s')"
  shows "s' = s \<or> (\<exists>w c. s' = update_trial s a (\<lambda>t. t\<lparr>winner := Some w, trial_confidence := Some c\<rparr>))"
proof (cases ro)
  case None
  with assms evaluate_none show ?thesis by blast
next
  case (Some r)
  with assms obtain t where "get_trial s a = Some t" using evaluate_some_found by blast
  from evaluate_result [OF this] assms Some show ?thesis by blast
qed

lemma call_counts_ok:
  assumes "list_all trial_counts_ok (trials s)"
  shows "list_all trial_counts_ok (trials (call s c))"
proof (cases c)
  case (CreateTrial n d cfg sp ms now)
  with assms show ?thesis
    by (simp add: create_trial_def Let_def trial_counts_ok_def counts_ok_steps)
next
  case (StartTrial i)
  with assms show ?thesis
    by (simp add: on_trial_def list_all_list_update trial_counts_ok_steps)
next
  case (PauseTrial i)
  with assms show ?thesis
    by (simp add: on_trial_def list_all_list_update trial_counts_ok_steps)
next
  case (ResumeTrial i)
  with assms show ?thesis
    by (simp add: on_trial_def list_all_list_update trial_counts_ok_steps)
next
  case (RecordQualification b br tier)
  with assms show ?thesis
    by (simp add: record_qualification_def update_trial_def list_all_update_first
        trial_counts_ok_steps split: option.splits)
next
  case (RecordOutcome b br ot dv cost)
  with assms show ?thesis
    by (simp add: record_outcome_def update_trial_def list_all_update_first
        trial_counts_ok_steps split: option.splits)
next
  case (EvaluateTrial b)
  show ?thesis
  proof (cases "evaluate_trial s b")
    case (Inl e)
    with EvaluateTrial assms show ?thesis by simp
  next
    case (Inr p)
    obtain ro s' where p: "p = (ro, s')" by (cases p)
    with Inr have "evaluate_trial s b = Inr (ro, s')" by simp
    from evaluate_trials [OF this] assms have "list_all trial_counts_ok (trials s')"
      by (auto simp: update_trial_def list_all_update_first trial_counts_ok_steps)
    with EvaluateTrial Inr p show ?thesis by simp
  qed
next
  case (PromoteExperimental b)
  with assms show ?thesis
    by (simp add: promote_experimental_def Let_def update_trial_def save_standard_def
        list_all_update_first trial_counts_ok_steps split: option.splits)
next
  case (ArchiveTrial b)
  with assms show ?thesis
    by (simp add: archive_trial_def update_trial_def list_all_update_first
        trial_counts_ok_steps split: option.splits)
qed

text \<open>
  In every manager reached from a new one by calls of its operations, the counters of every
  branch are counts.
\<close>

lemma reachable_counts_ok:
  "list_all trial_counts_ok (trials (run_calls (new_manager standard) calls))"
proof (induction calls rule: rev_induct)
  case Nil
  then show ?case by (simp add: run_calls_def new_manager_def)
next
  case (snoc c calls)
  then show ?case using call_counts_ok by (simp add: run_calls_def)
qed

section \<open>Properties of the graveyard\<close>

lemma severity_stated:
  "assess_severity issue outcome = Inr sev \<Longrightarrow> sev = stated_severity outcome"
  by (auto simp: assess_severity_def stated_severity_def exceeds_def get_default_def py_gt_def
      and_then_def Let_def split: entry.splits if_splits)

text \<open>
  A coherence score that is present and \<^verbatim>\<open>None\<close> cannot be compared: the assessment raises
  unless the expected value alone decides.
\<close>

lemma severity_none:
  "o_coherence_score outcome = PyNone \<Longrightarrow> \<not> exceeds (o_expected_value outcome) 50000
   \<Longrightarrow> assess_severity issue outcome = Inl TypeError"
  by (auto simp: assess_severity_def exceeds_def get_default_def py_gt_def and_then_def
      split: entry.splits)

lemma map_err_Inr:
  "map_err f xs = Inr ys \<Longrightarrow> list_all2 (\<lambda>x y. f x = Inr y) xs ys"
proof (induction xs arbitrary: ys)
  case Nil
  then show ?case by simp
next
  case (Cons x xs)
  then show ?case
    by (auto simp: and_then_def split: sum.splits)
qed

lemma extract_issues:
  assumes "extract_nutrients fmt outcome = Inr ns"
  shows "\<exists>from_issues rest. ns = from_issues @ rest
           \<and> list_all2 (\<lambda>issue n. lesson n = issue \<and> severity n = stated_severity outcome)
                (issues_of outcome) from_issues"
proof -
  from assms obtain lid cname otype from_issues rest where
    ns: "ns = from_issues @ rest" and
    m: "map_err (\<lambda>issue.
                 and_then (assess_severity issue outcome) (\<lambda>sev.
                   Inr \<lparr>n_lead_id = lid, n_company_name = cname, n_outcome_type = otype,
              category = categorize_issue issue, lesson = issue, severity = sev,
              n_qualification_tier = o_qualification_tier outcome,
              n_coherence_score = get_entry (o_coherence_score outcome),
              n_trial_branch = o_trial_branch outcome, applied_to_standard = False\<rparr>))
               (issues_of outcome) = Inr from_issues"
    by (auto simp: extract_nutrients_def and_then_def Let_def split: sum.splits)
  from map_err_Inr [OF m]
  have "list_all2 (\<lambda>issue n. lesson n = issue \<and> severity n = stated_severity outcome)
          (issues_of outcome) from_issues"
    by (rule list_all2_mono) (auto simp: and_then_def split: sum.splits dest: severity_stated)
  with ns show ?thesis by blast
qed


lemma bury_extract:
  assumes "bury_lead fmt self outcome = (Inr ns, self')"
  shows "extract_nutrients fmt outcome = Inr ns"
  using assms
  by (auto simp: bury_lead_def and_then_def Let_def split: sum.splits)

text \<open>
  Claim C8. When \<^verbatim>\<open>bury_lead\<close> returns its nutrients, the first of them come from the
  ``what went wrong'' items, one per item and in their order, and each has the severity that
  the specification states: \<^verbatim>\<open>critical\<close> if the expected deal value exceeds 50000 or the
  coherence at failure exceeds 2.5, \<^verbatim>\<open>moderate\<close> if neither holds and the coherence exceeds
  1.5, and \<^verbatim>\<open>minor\<close> otherwise.
\<close>

theorem C8_severity:
  "bury_lead fmt self outcome = (Inr ns, self') \<longrightarrow>
     length (issues_of outcome) \<le> length ns
     \<and> (\<forall>i < length (issues_of outcome).
           lesson (ns ! i) = issues_of outcome ! i
           \<and> severity (ns ! i) = stated_severity outcome)"
proof
  assume "bury_lead fmt self outcome = (Inr ns, self')"
  then have "extract_nutrients fmt outcome = Inr ns" by (rule bury_extract)
  from extract_issues [OF this] obtain from_issues rest where
    ns: "ns = from_issues @ rest" and
    l: "list_all2 (\<lambda>issue n. lesson n = issue \<and> severity n = stated_severity outcome)
          (issues_of outcome) from_issues"
    by blast
  from l have len: "length from_issues = length (issues_of outcome)"
    by (simp add: list_all2_lengthD)
  have "lesson (ns ! i) = issues_of outcome ! i \<and> severity (ns ! i) = stated_severity outcome"
    if "i < length (issues_of outcome)" for i
  proof -
    from that len have "ns ! i = from_issues ! i" by (simp add: ns nth_append)
    with list_all2_nthD [OF l that] show ?thesis by simp
  qed
  with len ns show "length (issues_of outcome) \<le> length ns
     \<and> (\<forall>i < length (issues_of outcome).
           lesson (ns ! i) = issues_of outcome ! i
           \<and> severity (ns ! i) = stated_severity outcome)"
    by simp
qed

lemma demo_buried:
  "isl (fst (bury_lead fmt new_graveyard lost001)) = False"
  "isl (fst (bury_lead fmt new_graveyard lost002)) = False"
  "map category (projr (fst (bury_lead fmt new_graveyard lost001)))
     = [''authority'', ''pricing'', ''competitive'', ''competitive'']"
  by code_simp+

lemma demo_stated:
  "stated_severity lost001 = ''critical''" "stated_severity lost002 = ''moderate''"
  "issues_of lost001 = [''Did not multi-thread to other stakeholders'', ''Lost on price'']"
  "issues_of lost002 = [''Unclear next steps after demo'']"
  by (simp_all add: stated_severity_def exceeds_def lost001_def lost002_def issues_of_def)

theorem C8_severity_witness:
  "\<forall>fmt. severity (projr (fst (bury_lead fmt new_graveyard lost001)) ! 0) = ''critical''
        \<and> severity (projr (fst (bury_lead fmt new_graveyard lost001)) ! 1) = ''critical''
        \<and> severity (projr (fst (bury_lead fmt new_graveyard lost002)) ! 0) = ''moderate''"
proof
  fix fmt :: "real \<Rightarrow> string"
  let ?b1 = "bury_lead fmt new_graveyard lost001" and ?b2 = "bury_lead fmt new_graveyard lost002"
  have 1: "?b1 = (Inr (projr (fst ?b1)), snd ?b1)"
    using demo_buried(1) [of fmt] by (cases ?b1; cases "fst ?b1") auto
  have 2: "?b2 = (Inr (projr (fst ?b2)), snd ?b2)"
    using demo_buried(2) [of fmt] by (cases ?b2; cases "fst ?b2") auto
  from C8_severity [of fmt new_graveyard lost001 "projr (fst ?b1)" "snd ?b1"] 1
  have a: "\<forall>i < 2. severity (projr (fst ?b1) ! i) = ''critical''"
    by (simp add: demo_stated)
  from C8_severity [of fmt new_graveyard lost002 "projr (fst ?b2)" "snd ?b2"] 2
  have b: "\<forall>i < 1. severity (projr (fst ?b2) ! i) = ''moderate''"
    by (simp add: demo_stated)
  from a b show "severity (projr (fst ?b1) ! 0) = ''critical''
        \<and> severity (projr (fst ?b1) ! 1) = ''critical''
        \<and> severity (projr (fst ?b2) ! 0) = ''moderate''"
    by simp
qed

end
